theory Spec2Isabelle
  imports Complex_Main "HOL-Library.AList" "HOL-Library.Sublist"
begin

section \<open>Python strings and lists\<close>

text \<open>
  A Python \<open>str\<close> is modelled as a \<^typ>\<open>string\<close>; one \<^typ>\<open>char\<close> stands for one
  code point in the range U+0000..U+00FF. The character classes below are Python's
  \<open>str.isspace\<close>, \<open>str.isdigit\<close> and \<open>str.isdecimal\<close> on that range.
\<close>

definition isspace :: "char \<Rightarrow> bool" where
  "isspace c = (of_char c \<in> {9, 10, 11, 12, 13, 28, 29, 30, 31, 32, 133, 160 :: nat})"

definition isdecimal :: "char \<Rightarrow> bool" where
  "isdecimal c = (48 \<le> (of_char c :: nat) \<and> (of_char c :: nat) \<le> 57)"

text \<open>\<open>str.isdigit\<close> also accepts the superscript digits U+00B2, U+00B3 and U+00B9,
  which \<open>int()\<close> rejects.\<close>

definition isdigit :: "char \<Rightarrow> bool" where
  "isdigit c = (isdecimal c \<or> of_char c \<in> {178, 179, 185 :: nat})"

definition chr :: "nat \<Rightarrow> string" where
  "chr n = [char_of n]"

text \<open>\<open>sep.join(xs)\<close> on a list of strings.\<close>

fun join :: "string \<Rightarrow> string list \<Rightarrow> string" where
  "join sep [] = []"
| "join sep [x] = x"
| "join sep (x # y # ys) = x @ sep @ join sep (y # ys)"

text \<open>The slice \<open>xs[-n:]\<close> for \<open>n > 0\<close>: the last \<open>n\<close> elements, all of them when the list
  is shorter.\<close>

definition last_n :: "nat \<Rightarrow> 'a list \<Rightarrow> 'a list" where
  "last_n n xs = drop (length xs - n) xs"

text \<open>\<open>s.strip()\<close>: leading and trailing whitespace removed.\<close>

definition strip :: "string \<Rightarrow> string" where
  "strip s = rev (dropWhile isspace (rev (dropWhile isspace s)))"

text \<open>\<open>s.split()\<close>: the maximal runs of non-whitespace characters, in order.\<close>

function py_split :: "string \<Rightarrow> string list" where
  "py_split s =
     (case dropWhile isspace s of
        [] \<Rightarrow> []
      | c # cs \<Rightarrow> (c # takeWhile (\<lambda>d. \<not> isspace d) cs)
                  # py_split (dropWhile (\<lambda>d. \<not> isspace d) cs))"
  by pat_completeness auto
termination
proof (relation "measure length")
  show "wf (measure (length :: string \<Rightarrow> nat))" by simp
next
  fix s :: string and c cs
  assume eq: "dropWhile isspace s = c # cs"
  have "length (dropWhile (\<lambda>d. \<not> isspace d) cs) \<le> length cs"
    by (rule length_dropWhile_le)
  also have "length cs < length (dropWhile isspace s)"
    by (simp add: eq)
  also have "length (dropWhile isspace s) \<le> length s"
    by (rule length_dropWhile_le)
  finally show "(dropWhile (\<lambda>d. \<not> isspace d) cs, s) \<in> measure length"
    by simp
qed

declare py_split.simps [simp del]

text \<open>\<open>str(n)\<close> for an integer, as an f-string renders it.\<close>

function str_nat :: "nat \<Rightarrow> string" where
  "str_nat n = (if n < 10 then [char_of (48 + n)]
                else str_nat (n div 10) @ [char_of (48 + n mod 10)])"
  by pat_completeness auto
termination
  by (relation "measure id") auto

declare str_nat.simps [simp del]

definition str_int :: "int \<Rightarrow> string" where
  "str_int i = (if i < 0 then CHR ''-'' # str_nat (nat (- i)) else str_nat (nat i))"

datatype py_error = IndexError | ValueError | TypeError

text \<open>
  \<open>int(s)\<close> for a string \<open>s\<close> that consists of \<open>isdigit\<close> characters only (what
  \<open>filter(str.isdigit, ...)\<close> leaves): it raises ValueError on the empty string, on a
  character that is not a decimal digit, and when the string has more digits than the
  interpreter's limit \<open>sys.get_int_max_str_digits()\<close> (\<open>0\<close> means no limit, as in the
  interpreters that have none; the default is 4300).
\<close>

definition py_int :: "nat \<Rightarrow> string \<Rightarrow> py_error + int" where
  "py_int max_str_digits s =
     (if s = [] then Inl ValueError
      else if list_all isdecimal s then
        (if 0 < max_str_digits \<and> max_str_digits < length s then Inl ValueError
         else Inr (int (foldl (\<lambda>n c. 10 * n + (of_char c - 48)) 0 s)))
      else Inl ValueError)"

section \<open>The outside world\<close>

text \<open>
  The Model Gateway (\<open>ollama.chat\<close>), the clock, the HTTP client and the JSON encoder are
  not part of the program. They are parameters: each reads and updates an opaque outside
  state \<open>'x\<close>. A gateway call answers \<open>Inr content\<close> (the text at
  \<open>response['message']['content']\<close>) or \<open>Inl msg\<close>, where \<open>msg\<close> is \<open>str(e)\<close> of the
  exception that the call or the extraction of the content raised.
\<close>

record message =
  role :: string
  content :: string

datatype search_result =
    Paper (title: string) (summary: string) (url: string) (source: string)
  | SearchError (error: string)

record 'x env =
  gateway :: "string \<Rightarrow> message list \<Rightarrow> 'x \<Rightarrow> (string + string) \<times> 'x"
  now_isoformat :: "'x \<Rightarrow> string \<times> 'x"
  now_str :: "'x \<Rightarrow> string \<times> 'x"
  requests_get :: "string \<Rightarrow> (string \<times> string) list \<Rightarrow> 'x \<Rightarrow> (string + nat) \<times> 'x"
  json_dumps :: "search_result list \<Rightarrow> string"
  int_max_str_digits :: nat

text \<open>The world keeps the trace of the requests handed to the gateway, oldest first:
  the model identifier and the message list of each \<open>ollama.chat\<close> call.\<close>

record 'x world =
  sent :: "(string \<times> message list) list"
  outside :: 'x

definition ollama_chat ::
  "'x env \<Rightarrow> string \<Rightarrow> message list \<Rightarrow> 'x world \<Rightarrow> (string + string) \<times> 'x world" where
  "ollama_chat env mdl messages w =
     (let (r, x) = gateway env mdl messages (outside w)
      in (r, \<lparr>sent = sent w @ [(mdl, messages)], outside = x\<rparr>))"

definition datetime_now_isoformat :: "'x env \<Rightarrow> 'x world \<Rightarrow> string \<times> 'x world" where
  "datetime_now_isoformat env w =
     (let (t, x) = now_isoformat env (outside w) in (t, w\<lparr>outside := x\<rparr>))"

definition datetime_now_str :: "'x env \<Rightarrow> 'x world \<Rightarrow> string \<times> 'x world" where
  "datetime_now_str env w =
     (let (t, x) = now_str env (outside w) in (t, w\<lparr>outside := x\<rparr>))"

section \<open>agent.py: ResearchAgent\<close>

record history_entry =
  timestamp :: string
  prompt :: string
  response :: string

record research_note =
  note_timestamp :: string
  note_text :: string

record agent =
  name :: string
  specialty :: string
  model :: string
  conversation_history :: "history_entry list"
  research_notes :: "research_note list"
  system_prompt :: string
  improvement_count :: nat

definition create_initial_prompt :: "string \<Rightarrow> string \<Rightarrow> string" where
  "create_initial_prompt nm sp =
     ''You are '' @ nm @ '', an expert AI researcher specializing in '' @ sp @
     ''.\<newline>'' @
     ''\<newline>'' @
     ''Your role in this research team:\<newline>'' @
     ''- Collaborate with other AI researchers to produce high-quality resear'' @
     ''ch papers\<newline>'' @
     ''- Contribute insights from your specialty area\<newline>'' @
     ''- Critically evaluate ideas and proposals\<newline>'' @
     ''- Search for relevant information when needed\<newline>'' @
     ''- Help structure and write sections of research papers\<newline>'' @
     ''- Be concise but thorough in your responses\<newline>'' @
     ''\<newline>'' @
     ''You can improve your own system prompt by analyzing what works and wha'' @
     ''t doesn't.\<newline>'' @
     ''When suggesting prompt improvements, focus on making yourself more eff'' @
     ''ective at research tasks.\<newline>'' @
     ''\<newline>'' @
     ''Current specialty: '' @ sp @ ''\<newline>'' @
     ''Research approach: Rigorous, evidence-based, collaborative\<newline>''"

text \<open>\<open>ResearchAgent.__init__\<close>\<close>

definition ResearchAgent :: "string \<Rightarrow> string \<Rightarrow> string \<Rightarrow> agent" where
  "ResearchAgent nm sp mdl =
     \<lparr>name = nm, specialty = sp, model = mdl, conversation_history = [],
      research_notes = [], system_prompt = create_initial_prompt nm sp,
      improvement_count = 0\<rparr>"

text \<open>
  \<open>generate_response(prompt, context=None)\<close>. The whole body is inside
  \<open>try ... except Exception as e: return f"Error generating response: {str(e)}"\<close>;
  the only statement that can raise is the gateway call with the extraction of its
  content, and the history is appended to after it.
\<close>

definition generate_response ::
  "'x env \<Rightarrow> string \<Rightarrow> message list option \<Rightarrow> agent \<Rightarrow> 'x world
     \<Rightarrow> string \<times> agent \<times> 'x world" where
  "generate_response env prmpt context a w =
     (let messages = [\<lparr>role = ''system'', content = system_prompt a\<rparr>];
          messages = (case context of
                        None \<Rightarrow> messages
                      | Some ctx \<Rightarrow> if ctx \<noteq> [] then messages @ last_n 10 ctx else messages);
          messages = messages @ [\<lparr>role = ''user'', content = prmpt\<rparr>];
          (r, w) = ollama_chat env (model a) messages w
      in case r of
           Inr agent_response \<Rightarrow>
             (let (ts, w) = datetime_now_isoformat env w;
                  a = a\<lparr>conversation_history := conversation_history a @
                         [\<lparr>timestamp = ts, prompt = prmpt, response = agent_response\<rparr>]\<rparr>
              in (agent_response, a, w))
         | Inl e \<Rightarrow> (''Error generating response: '' @ e, a, w))"

text \<open>\<open>f"Feedback received: {feedback}" if feedback else ""\<close>, with \<open>feedback\<close>
  defaulting to \<open>None\<close>.\<close>

definition feedback_line :: "string option \<Rightarrow> string" where
  "feedback_line feedback =
     (case feedback of
        None \<Rightarrow> []
      | Some f \<Rightarrow> if f \<noteq> [] then ''Feedback received: '' @ f else [])"

definition improvement_prompt :: "agent \<Rightarrow> string option \<Rightarrow> string" where
  "improvement_prompt a feedback =
     ''Analyze your current system prompt and suggest an improved version.\<newline>'' @
     ''\<newline>'' @
     ''Current System Prompt:\<newline>'' @
     system_prompt a @ ''\<newline>'' @
     ''\<newline>'' @
     ''Recent Performance Context:\<newline>'' @
     ''- You've been part of '' @ str_nat (length (conversation_history a)) @
     '' discussions\<newline>'' @
     ''- Specialty: '' @ specialty a @ ''\<newline>'' @
     ''- Improvement iteration: '' @ str_nat (improvement_count a) @ ''\<newline>'' @
     ''\<newline>'' @
     feedback_line feedback @ ''\<newline>'' @
     ''\<newline>'' @
     ''Suggest an improved system prompt that makes you more effective at:\<newline>'' @
     ''1. Contributing specialized knowledge\<newline>'' @
     ''2. Collaborating with other agents\<newline>'' @
     ''3. Critical thinking and analysis\<newline>'' @
     ''4. Research paper writing\<newline>'' @
     ''\<newline>'' @
     ''Respond with ONLY the new system prompt, nothing else.''"

text \<open>
  The report starts with the three code points U+00E2, U+0153, U+00A8. The second one is
  outside the range of a \<^typ>\<open>char\<close>, so the three are held as the six bytes of their
  UTF-8 encoding: the report of the model is three characters longer than the report of
  the code. Nothing below depends on the text of the report beyond its first character.
\<close>

definition report_mark :: string where
  "report_mark = [CHR 0xC3, CHR 0xA2, CHR 0xC5, CHR 0x93, CHR 0xC2, CHR 0xA8]"

text \<open>
  \<open>improve_system_prompt(feedback=None)\<close>. The gateway is called directly, not through
  \<open>generate_response\<close>; the fields are assigned after the call and the \<open>strip()\<close> of its
  content, inside the \<open>try\<close>.
\<close>

definition improve_system_prompt ::
  "'x env \<Rightarrow> string option \<Rightarrow> agent \<Rightarrow> 'x world \<Rightarrow> string \<times> agent \<times> 'x world" where
  "improve_system_prompt env feedback a w =
     (let (r, w) = ollama_chat env (model a)
                     [\<lparr>role = ''system'',
                       content = ''You are a meta-AI that improves AI system prompts.''\<rparr>,
                      \<lparr>role = ''user'', content = improvement_prompt a feedback\<rparr>] w
      in case r of
           Inr c \<Rightarrow>
             (let new_prompt = strip c;
                  old_prompt = system_prompt a;
                  a = a\<lparr>system_prompt := new_prompt\<rparr>;
                  a = a\<lparr>improvement_count := improvement_count a + 1\<rparr>
              in (report_mark @ '' Prompt improved! (v'' @ str_nat (improvement_count a) @
                  '')\<newline>\<newline>Old length: '' @ str_nat (length old_prompt) @
                  '' chars\<newline>New length: '' @ str_nat (length new_prompt) @ '' chars'',
                  a, w))
         | Inl e \<Rightarrow> (''Error improving prompt: '' @ e, a, w))"

definition add_research_note :: "'x env \<Rightarrow> string \<Rightarrow> agent \<Rightarrow> 'x world \<Rightarrow> agent \<times> 'x world" where
  "add_research_note env text a w =
     (let (ts, w) = datetime_now_isoformat env w
      in (a\<lparr>research_notes := research_notes a @ [\<lparr>note_timestamp = ts, note_text = text\<rparr>]\<rparr>, w))"

record agent_summary =
  summary_name :: string
  summary_specialty :: string
  conversations :: nat
  research_notes_count :: nat
  improvements :: nat
  system_prompt_length :: nat

definition get_summary :: "agent \<Rightarrow> agent_summary" where
  "get_summary a =
     \<lparr>summary_name = name a, summary_specialty = specialty a,
      conversations = length (conversation_history a),
      research_notes_count = length (research_notes a),
      improvements = improvement_count a,
      system_prompt_length = length (system_prompt a)\<rparr>"

section \<open>search_tool.py: ResearchSearch.search_arxiv\<close>

record search_record =
  search_query :: string
  search_source :: string
  search_timestamp :: string

definition requests_get_call ::
  "'x env \<Rightarrow> string \<Rightarrow> (string \<times> string) list \<Rightarrow> 'x world \<Rightarrow> (string + nat) \<times> 'x world" where
  "requests_get_call env u params w =
     (let (r, x) = requests_get env u params (outside w) in (r, w\<lparr>outside := x\<rparr>))"

text \<open>
  \<open>search_arxiv(query, max_results)\<close> on the search history \<open>hist\<close>. \<open>requests.get\<close>
  answers \<open>Inr status_code\<close> or \<open>Inl str(e)\<close>; the body of the page is not read.
\<close>

definition search_arxiv ::
  "'x env \<Rightarrow> string \<Rightarrow> nat \<Rightarrow> search_record list \<Rightarrow> 'x world
     \<Rightarrow> search_result list \<times> search_record list \<times> 'x world" where
  "search_arxiv env q max_results hist w =
     (let (r, w) = requests_get_call env ''http://export.arxiv.org/api/query''
                     [(''search_query'', ''all:'' @ q), (''start'', ''0''),
                      (''max_results'', str_nat max_results)] w
      in case r of
           Inr status_code \<Rightarrow>
             if status_code = 200 then
               (let (ts, w) = datetime_now_str env w
                in ([Paper ''arXiv paper'' ''Paper summary from arXiv'' ''https://arxiv.org/''
                       ''arXiv''],
                    hist @ [\<lparr>search_query = q, search_source = ''arxiv'',
                             search_timestamp = ts\<rparr>], w))
             else ([SearchError (''Search failed with status '' @ str_nat status_code)],
                   hist, w)
         | Inl e \<Rightarrow> ([SearchError (''Search error: '' @ e)], hist, w))"

section \<open>orchestrator.py: ResearchOrchestrator\<close>

text \<open>
  An entry of \<open>discussion_log\<close> is a dict; key \<open>k\<close> is the field \<open>log_k\<close>, and a key the
  entry does not have is \<open>None\<close>.
\<close>

record log_entry =
  log_round :: "nat option"
  log_agent :: string
  log_type :: string
  log_topic :: "string option"
  log_content :: "string option"
  log_query :: "string option"
  log_analysis :: "string option"

text \<open>
  The dict \<open>satisfaction_scores\<close> is an association list with distinct keys in insertion
  order; \<open>d[k] = v\<close> is \<^const>\<open>AList.update\<close>. The field \<open>latex_generator\<close> belongs to a module
  that is not modelled; \<open>search_tool\<close> is the search history of the \<open>ResearchSearch\<close>.
\<close>

record orchestrator =
  agents :: "agent list"
  search_tool :: "search_record list"
  discussion_log :: "log_entry list"
  research_topic :: string
  satisfaction_scores :: "(string \<times> int) list"
  target_satisfaction :: int

text \<open>\<open>ResearchOrchestrator.__init__\<close>\<close>

definition ResearchOrchestrator :: orchestrator where
  "ResearchOrchestrator =
     \<lparr>agents = [], search_tool = [], discussion_log = [], research_topic = [],
      satisfaction_scores = [], target_satisfaction = 8\<rparr>"

definition add_agent :: "string \<Rightarrow> string \<Rightarrow> string \<Rightarrow> orchestrator \<Rightarrow> agent \<times> orchestrator" where
  "add_agent nm sp mdl s =
     (let a = ResearchAgent nm sp mdl;
          s = s\<lparr>agents := agents s @ [a]\<rparr>;
          s = s\<lparr>satisfaction_scores := AList.update nm 5 (satisfaction_scores s)\<rparr>
      in (a, s))"

definition initialize_default_team :: "orchestrator \<Rightarrow> orchestrator" where
  "initialize_default_team s =
     (let s = snd (add_agent ''Dr. Neural'' ''Neural Networks and Deep Learning'' ''llama3.1'' s);
          s = snd (add_agent ''Dr. Ethics'' ''AI Ethics and Safety'' ''llama3.1'' s);
          s = snd (add_agent ''Dr. NLP'' ''Natural Language Processing'' ''llama3.1'' s);
          s = snd (add_agent ''Dr. Vision'' ''Computer Vision and Multimodal AI'' ''llama3.1'' s);
          s = snd (add_agent ''Dr. RL'' ''Reinforcement Learning'' ''llama3.1'' s)
      in s)"

definition set_research_topic :: "string \<Rightarrow> orchestrator \<Rightarrow> orchestrator" where
  "set_research_topic t s = s\<lparr>research_topic := t\<rparr>"

text \<open>
  \<open>for agent in self.agents: body\<close>, where the body may change the agent it visits and
  a state \<open>'st\<close> made of the other variables it assigns. The roster itself is not
  reassigned by any loop body.
\<close>

fun for_agents ::
  "(agent \<Rightarrow> 'st \<Rightarrow> agent \<times> 'st) \<Rightarrow> agent list \<Rightarrow> 'st \<Rightarrow> agent list \<times> 'st" where
  "for_agents body [] st = ([], st)"
| "for_agents body (a # as) st =
     (let (a', st') = body a st;
          (as', st'') = for_agents body as st'
      in (a' # as', st''))"

text \<open>\<open>range(n)\<close>\<close>

definition py_range :: "int \<Rightarrow> nat list" where
  "py_range n = [0..<nat n]"

subsection \<open>conduct_brainstorm_session\<close>

definition brainstorm_prompt ::
  "string \<Rightarrow> nat \<Rightarrow> int \<Rightarrow> string list \<Rightarrow> agent \<Rightarrow> string" where
  "brainstorm_prompt t round_num rounds brainstorm_results a =
     ''Research Topic: '' @ t @ ''\<newline>'' @
     ''                \<newline>'' @
     ''Brainstorming Round '' @ str_nat (round_num + 1) @ ''/'' @ str_int rounds @
     ''\<newline>'' @
     ''\<newline>'' @
     (if brainstorm_results \<noteq> [] then ''Previous ideas from team:''
      else ''Initial brainstorming - share your key ideas:'') @
     ''\<newline>'' @
     (if brainstorm_results \<noteq> [] then join (chr 10) (last_n 5 brainstorm_results) else []) @
     ''\<newline>'' @
     ''\<newline>'' @
     ''As an expert in '' @ specialty a @
     '', provide 2-3 key research directions or hypotheses.\<newline>'' @
     ''Be specific and build upon previous ideas where relevant.''"

text \<open>The body of the inner loop; its state is \<open>round_ideas\<close>, \<open>self.discussion_log\<close>
  and the world. \<open>brainstorm_results\<close> is only read.\<close>

definition brainstorm_turn ::
  "'x env \<Rightarrow> string \<Rightarrow> int \<Rightarrow> nat \<Rightarrow> string list \<Rightarrow> agent
     \<Rightarrow> string list \<times> log_entry list \<times> 'x world
     \<Rightarrow> agent \<times> string list \<times> log_entry list \<times> 'x world" where
  "brainstorm_turn env t rounds round_num brainstorm_results a st =
     (let (round_ideas, lg, w) = st;
          p = brainstorm_prompt t round_num rounds brainstorm_results a;
          (resp, a, w) = generate_response env p None a w;
          round_ideas = round_ideas @ [''['' @ name a @ '']: '' @ resp];
          lg = lg @ [\<lparr>log_round = Some (round_num + 1), log_agent = name a,
                      log_type = ''brainstorm'', log_topic = None, log_content = Some resp,
                      log_query = None, log_analysis = None\<rparr>]
      in (a, round_ideas, lg, w))"

text \<open>The body of the outer loop: \<open>round_ideas\<close> starts empty and is appended to
  \<open>brainstorm_results\<close> after the inner loop.\<close>

definition brainstorm_round ::
  "'x env \<Rightarrow> string \<Rightarrow> int
     \<Rightarrow> agent list \<times> string list \<times> log_entry list \<times> 'x world \<Rightarrow> nat
     \<Rightarrow> agent list \<times> string list \<times> log_entry list \<times> 'x world" where
  "brainstorm_round env t rounds st round_num =
     (let (ags, brainstorm_results, lg, w) = st;
          (ags, round_ideas, lg, w) =
             for_agents (brainstorm_turn env t rounds round_num brainstorm_results) ags
               ([], lg, w)
      in (ags, brainstorm_results @ round_ideas, lg, w))"

definition conduct_brainstorm_session ::
  "'x env \<Rightarrow> int \<Rightarrow> orchestrator \<Rightarrow> 'x world \<Rightarrow> string list \<times> orchestrator \<times> 'x world" where
  "conduct_brainstorm_session env rounds s w =
     (let (ags, brainstorm_results, lg, w) =
             foldl (brainstorm_round env (research_topic s) rounds)
               (agents s, [], discussion_log s, w) (py_range rounds)
      in (brainstorm_results, s\<lparr>agents := ags, discussion_log := lg\<rparr>, w))"

subsection \<open>conduct_research_phase\<close>

definition analysis_prompt :: "'x env \<Rightarrow> string \<Rightarrow> search_result list \<Rightarrow> string \<Rightarrow> string" where
  \<open>analysis_prompt env q results t =
     ''You searched for: "'' @ q @ ''"\<newline>'' @
     ''            \<newline>'' @
     ''Search Results:\<newline>'' @
     json_dumps env results @ ''\<newline>'' @
     ''\<newline>'' @
     ''Analyze these results and extract key findings relevant to our researc'' @ ''h on: '' @
     t @ ''\<newline>'' @
     ''Provide a concise summary of the most important insights.''\<close>

text \<open>
  The loop over \<open>search_queries\<close>. \<open>self.agents[0]\<close> raises IndexError on an empty
  roster, before anything else happens in that iteration. \<open>search_results\<close> is a dict
  from query to results.
\<close>

fun research_queries ::
  "'x env \<Rightarrow> string list \<Rightarrow> (string \<times> search_result list) list \<Rightarrow> orchestrator \<Rightarrow> 'x world
     \<Rightarrow> py_error option \<times> (string \<times> search_result list) list \<times> orchestrator \<times> 'x world" where
  "research_queries env [] search_results s w = (None, search_results, s, w)"
| "research_queries env (q # qs) search_results s w =
     (case agents s of
        [] \<Rightarrow> (Some IndexError, search_results, s, w)
      | a # rest \<Rightarrow>
          (let (results, hist, w) = search_arxiv env q 3 (search_tool s) w;
               s = s\<lparr>search_tool := hist\<rparr>;
               search_results = AList.update q results search_results;
               p = analysis_prompt env q results (research_topic s);
               (analysis, a, w) = generate_response env p None a w;
               (a, w) = add_research_note env
                          (''Search: '' @ q @ ''\<newline>Findings: '' @ analysis) a w;
               s = s\<lparr>agents := a # rest\<rparr>;
               s = s\<lparr>discussion_log := discussion_log s @
                      [\<lparr>log_round = None, log_agent = name a, log_type = ''research'',
                        log_topic = None, log_content = None, log_query = Some q,
                        log_analysis = Some analysis\<rparr>]\<rparr>
           in research_queries env qs search_results s w))"

definition conduct_research_phase ::
  "'x env \<Rightarrow> string list \<Rightarrow> orchestrator \<Rightarrow> 'x world
     \<Rightarrow> (py_error + (string \<times> search_result list) list) \<times> orchestrator \<times> 'x world" where
  "conduct_research_phase env search_queries s w =
     (let (exc, search_results, s, w) = research_queries env search_queries [] s w
      in (case exc of Some e \<Rightarrow> Inl e | None \<Rightarrow> Inr search_results, s, w))"

subsection \<open>structured_discussion\<close>

text \<open>
  \<open>chr(10).join(context[-3:])\<close>: the items of \<open>context\<close> are the dicts
  \<open>{"role": ..., "content": ...}\<close> that the loop appends, not strings, and \<open>str.join\<close>
  raises TypeError at the first item that is not a string.
\<close>

definition join_context :: "string \<Rightarrow> message list \<Rightarrow> py_error + string" where
  "join_context sep items = (case items of [] \<Rightarrow> Inr [] | m # ms \<Rightarrow> Inl TypeError)"

definition discussion_prompt ::
  "string \<Rightarrow> string \<Rightarrow> int \<Rightarrow> nat \<Rightarrow> message list \<Rightarrow> agent \<Rightarrow> py_error + string" where
  "discussion_prompt t rt rounds round_num context a =
     (case (if context \<noteq> [] then join_context (chr 10) (last_n 3 context) else Inr []) of
        Inl e \<Rightarrow> Inl e
      | Inr recent \<Rightarrow> Inr (
          ''Discussion Topic: '' @ t @ ''\<newline>'' @
          ''                \<newline>'' @
          ''Round '' @ str_nat (round_num + 1) @ ''/'' @ str_int rounds @ ''\<newline>'' @
          ''Research Context: '' @ rt @ ''\<newline>'' @
          ''\<newline>'' @
          (if context \<noteq> [] then ''Recent discussion:'' else ''Opening statement:'') @
          ''\<newline>'' @
          recent @ ''\<newline>'' @
          ''\<newline>'' @
          ''Provide your perspective from '' @ specialty a @
          ''. Be analytical and critical.\<newline>'' @
          (if context \<noteq> [] then ''Challenge or build upon previous points.'' else [])))"

text \<open>
  The inner loop. Its state is \<open>discussion\<close>, \<open>context\<close>, \<open>self.discussion_log\<close> and the
  world. An exception leaves the loops with everything assigned so far in place: the
  agents already visited keep their new history.
\<close>

fun discussion_agents ::
  "'x env \<Rightarrow> string \<Rightarrow> string \<Rightarrow> int \<Rightarrow> nat \<Rightarrow> agent list
     \<Rightarrow> string list \<times> message list \<times> log_entry list \<times> 'x world
     \<Rightarrow> py_error option \<times> agent list \<times> string list \<times> message list \<times> log_entry list \<times> 'x world"
  where
  "discussion_agents env t rt rounds round_num [] st = (None, [], st)"
| "discussion_agents env t rt rounds round_num (a # as) st =
     (let (discussion, context, lg, w) = st
      in case discussion_prompt t rt rounds round_num context a of
           Inl e \<Rightarrow> (Some e, a # as, st)
         | Inr p \<Rightarrow>
             (let (resp, a, w) = generate_response env p (Some context) a w;
                  msg = ''['' @ name a @ '']: '' @ resp;
                  discussion = discussion @ [msg];
                  context = context @ [\<lparr>role = ''assistant'', content = msg\<rparr>];
                  lg = lg @ [\<lparr>log_round = Some (round_num + 1), log_agent = name a,
                              log_type = ''discussion'', log_topic = Some t,
                              log_content = Some resp, log_query = None,
                              log_analysis = None\<rparr>];
                  (exc, as, st) = discussion_agents env t rt rounds round_num as
                                    (discussion, context, lg, w)
              in (exc, a # as, st)))"

fun discussion_rounds ::
  "'x env \<Rightarrow> string \<Rightarrow> string \<Rightarrow> int \<Rightarrow> nat list \<Rightarrow> agent list
     \<Rightarrow> string list \<times> message list \<times> log_entry list \<times> 'x world
     \<Rightarrow> py_error option \<times> agent list \<times> string list \<times> message list \<times> log_entry list \<times> 'x world"
  where
  "discussion_rounds env t rt rounds [] ags st = (None, ags, st)"
| "discussion_rounds env t rt rounds (round_num # rest) ags st =
     (case discussion_agents env t rt rounds round_num ags st of
        (Some e, ags, st) \<Rightarrow> (Some e, ags, st)
      | (None, ags, st) \<Rightarrow> discussion_rounds env t rt rounds rest ags st)"

definition structured_discussion ::
  "'x env \<Rightarrow> string \<Rightarrow> int \<Rightarrow> orchestrator \<Rightarrow> 'x world
     \<Rightarrow> (py_error + string list) \<times> orchestrator \<times> 'x world" where
  "structured_discussion env t rounds s w =
     (let (exc, ags, discussion, context, lg, w) =
             discussion_rounds env t (research_topic s) rounds (py_range rounds) (agents s)
               ([], [], discussion_log s, w)
      in (case exc of Some e \<Rightarrow> Inl e | None \<Rightarrow> Inr discussion,
          s\<lparr>agents := ags, discussion_log := lg\<rparr>, w))"

subsection \<open>evaluate_satisfaction and check_consensus\<close>

definition satisfaction_prompt :: "string \<Rightarrow> agent \<Rightarrow> log_entry list \<Rightarrow> string" where
  "satisfaction_prompt t a lg =
     ''Evaluate the research progress on: '' @ t @ ''\<newline>'' @
     ''\<newline>'' @
     ''Your contributions so far: '' @ str_nat (length (research_notes a)) @
     '' research notes\<newline>'' @
     ''Team discussions: '' @ str_nat (length lg) @ '' messages\<newline>'' @
     ''\<newline>'' @
     ''Rate your satisfaction with:\<newline>'' @
     ''1. Quality of research conducted\<newline>'' @
     ''2. Depth of analysis\<newline>'' @
     ''3. Collaboration effectiveness\<newline>'' @
     ''4. Readiness to publish findings\<newline>'' @
     ''\<newline>'' @
     ''Respond with ONLY a number from 1-10, where:\<newline>'' @
     ''1-3: Needs significant more work\<newline>'' @
     ''4-6: Making progress but incomplete\<newline>'' @
     ''7-8: Good progress, minor refinements needed\<newline>'' @
     ''9-10: Excellent, ready to publish\<newline>'' @
     ''\<newline>'' @
     ''Your rating:''"

text \<open>
  \<open>score = int(''.join(filter(str.isdigit, response.split()[0])))\<close> and
  \<open>score = max(1, min(10, score))\<close>: IndexError when \<open>split()\<close> gives no token,
  ValueError from \<open>int\<close>.
\<close>

definition extract_score :: "'x env \<Rightarrow> string \<Rightarrow> py_error + int" where
  "extract_score env resp =
     (case py_split resp of
        [] \<Rightarrow> Inl IndexError
      | tok # toks \<Rightarrow>
          (case py_int (int_max_str_digits env) (filter isdigit tok) of
             Inl e \<Rightarrow> Inl e
           | Inr score \<Rightarrow> Inr (max 1 (min 10 score))))"

text \<open>The loop body, with its \<open>try ... except: self.satisfaction_scores[agent.name] = 5\<close>.
  Its state is \<open>self.satisfaction_scores\<close> and the world.\<close>

definition evaluate_turn ::
  "'x env \<Rightarrow> string \<Rightarrow> log_entry list \<Rightarrow> agent \<Rightarrow> (string \<times> int) list \<times> 'x world
     \<Rightarrow> agent \<times> (string \<times> int) list \<times> 'x world" where
  "evaluate_turn env t lg a st =
     (let (scores, w) = st;
          p = satisfaction_prompt t a lg;
          (resp, a, w) = generate_response env p None a w
      in case extract_score env resp of
           Inr score \<Rightarrow> (a, AList.update (name a) score scores, w)
         | Inl e \<Rightarrow> (a, AList.update (name a) 5 scores, w))"

definition evaluate_satisfaction ::
  "'x env \<Rightarrow> orchestrator \<Rightarrow> 'x world \<Rightarrow> (string \<times> int) list \<times> orchestrator \<times> 'x world" where
  "evaluate_satisfaction env s w =
     (let (ags, scores, w) =
            for_agents (evaluate_turn env (research_topic s) (discussion_log s)) (agents s)
              (satisfaction_scores s, w);
          s = s\<lparr>agents := ags, satisfaction_scores := scores\<rparr>
      in (satisfaction_scores s, s, w))"

text \<open>
  \<open>sum(...) / len(...)\<close> is Python's true division of two integers, the exact quotient
  rounded once to a float, and \<open>>=\<close> compares that float with the integer target
  exactly. The model keeps the exact quotient as a rational: with scores between 1 and
  10, rounding cannot move the quotient across an integer unless the table has more
  than \<open>2 ^ 49\<close> entries.
\<close>

definition check_consensus :: "orchestrator \<Rightarrow> bool" where
  "check_consensus s =
     (if satisfaction_scores s = [] then False
      else
        (let avg_score = (of_int (sum_list (map snd (satisfaction_scores s))) :: rat)
                           / of_nat (length (satisfaction_scores s))
         in avg_score \<ge> of_int (target_satisfaction s)))"

subsection \<open>generate_paper_sections and compile_final_paper\<close>

definition title_prompt :: "string \<Rightarrow> string" where
  "title_prompt t =
     ''Generate a compelling research paper title for our work on: '' @ t @
     ''\<newline>'' @
     ''\<newline>'' @
     ''Respond with ONLY the title, nothing else.''"

definition abstract_prompt :: "string \<Rightarrow> string" where
  "abstract_prompt t =
     ''Write a concise abstract (150-200 words) for our research paper on: '' @ t @
     ''\<newline>'' @
     ''\<newline>'' @
     ''Include:\<newline>'' @
     ''- Main objective\<newline>'' @
     ''- Methodology\<newline>'' @
     ''- Key findings\<newline>'' @
     ''- Significance\<newline>'' @
     ''\<newline>'' @
     ''Respond with ONLY the abstract text.''"

definition intro_prompt :: "string \<Rightarrow> string" where
  "intro_prompt t =
     ''Write the Introduction section for our paper on: '' @ t @ ''\<newline>'' @
     ''\<newline>'' @
     ''Include:\<newline>'' @
     ''- Background and motivation\<newline>'' @
     ''- Research gap\<newline>'' @
     ''- Our contributions\<newline>'' @
     ''- Paper structure\<newline>'' @
     ''\<newline>'' @
     ''Provide the complete introduction section.''"

definition method_prompt :: "string \<Rightarrow> agent \<Rightarrow> string" where
  "method_prompt t a =
     ''Write a methodology subsection from your expertise in '' @ specialty a @
     ''\<newline>'' @
     ''            \<newline>'' @
     ''For the research topic: '' @ t @ ''\<newline>'' @
     ''\<newline>'' @
     ''Describe the methods, techniques, or approaches relevant to your area.'' @
     ''\<newline>'' @
     ''Keep it concise (2-3 paragraphs).''"

definition results_prompt :: "string \<Rightarrow> string" where
  "results_prompt t =
     ''Write the Results and Discussion section.\<newline>'' @
     ''\<newline>'' @
     ''Research topic: '' @ t @ ''\<newline>'' @
     ''\<newline>'' @
     ''Synthesize the key findings and discuss their implications.\<newline>'' @
     ''Include analysis and interpretation.''"

definition conclusion_prompt :: string where
  "conclusion_prompt =
     ''Write the Conclusion section.\<newline>'' @
     ''\<newline>'' @
     ''Summarize:\<newline>'' @
     ''- Main contributions\<newline>'' @
     ''- Findings\<newline>'' @
     ''- Limitations\<newline>'' @
     ''- Future work\<newline>'' @
     ''\<newline>'' @
     ''Be concise but comprehensive.''"

text \<open>\<open>self.agents[i].generate_response(p)\<close> for an index \<open>i\<close> inside the roster.\<close>

definition respond_at ::
  "'x env \<Rightarrow> nat \<Rightarrow> string \<Rightarrow> agent list \<Rightarrow> 'x world \<Rightarrow> string \<times> agent list \<times> 'x world" where
  "respond_at env i p ags w =
     (let (resp, a, w) = generate_response env p None (ags ! i) w
      in (resp, ags[i := a], w))"

definition method_turn ::
  "'x env \<Rightarrow> string \<Rightarrow> agent \<Rightarrow> string list \<times> 'x world \<Rightarrow> agent \<times> string list \<times> 'x world" where
  "method_turn env t a st =
     (let (methodology_parts, w) = st;
          (method_part, a, w) = generate_response env (method_prompt t a) None a w
      in (a, methodology_parts @
               [CHR 0x5C # ''subsection{'' @ specialty a @ ''}\<newline>'' @ method_part], w))"

text \<open>
  \<open>self.agents[0]\<close> raises IndexError on an empty roster; with one agent or more,
  \<open>self.agents[1] if len(self.agents) > 1 else self.agents[0]\<close> and \<open>self.agents[-1]\<close>
  are inside the roster. \<open>sections\<close> is a dict from section name to text.
\<close>

definition generate_paper_sections ::
  "'x env \<Rightarrow> orchestrator \<Rightarrow> 'x world
     \<Rightarrow> (py_error + (string \<times> string) list) \<times> orchestrator \<times> 'x world" where
  "generate_paper_sections env s w =
     (if agents s = [] then (Inl IndexError, s, w)
      else
        (let ags = agents s; t = research_topic s; sections = [];
             (title, ags, w) = respond_at env 0 (title_prompt t) ags w;
             sections = AList.update ''title'' (strip title) sections;
             (abstract, ags, w) = respond_at env 0 (abstract_prompt t) ags w;
             sections = AList.update ''abstract'' abstract sections;
             (intro, ags, w) =
                respond_at env (if length ags > 1 then 1 else 0) (intro_prompt t) ags w;
             sections = AList.update ''introduction'' intro sections;
             (ags, methodology_parts, w) = for_agents (method_turn env t) ags ([], w);
             sections = AList.update ''methodology''
                          (join ''\<newline>\<newline>'' methodology_parts) sections;
             (results, ags, w) = respond_at env (length ags - 1) (results_prompt t) ags w;
             sections = AList.update ''results'' results sections;
             (conclusion, ags, w) = respond_at env (length ags - 1) conclusion_prompt ags w;
             sections = AList.update ''conclusion'' conclusion sections
         in (Inr sections, s\<lparr>agents := ags\<rparr>, w)))"

text \<open>
  \<open>compile_final_paper\<close> calls \<open>generate_paper_sections\<close> and hands the sections and the
  agents' names to \<open>self.latex_generator\<close>, which writes a file. The generator is another
  module; it reads the session and assigns nothing in it, so the session after the call
  is the one \<open>generate_paper_sections\<close> leaves.
\<close>

definition compile_final_paper ::
  "'x env \<Rightarrow> orchestrator \<Rightarrow> 'x world
     \<Rightarrow> (py_error + string list \<times> (string \<times> string) list) \<times> orchestrator \<times> 'x world" where
  "compile_final_paper env s w =
     (let (r, s, w) = generate_paper_sections env s w
      in (case r of
            Inl e \<Rightarrow> Inl e
          | Inr sections \<Rightarrow> Inr (map name (agents s), sections), s, w))"

subsection \<open>export_session_log and trigger_self_improvement\<close>

record session_data =
  export_topic :: string
  export_timestamp :: string
  export_agents :: "agent_summary list"
  export_discussion_log :: "log_entry list"
  export_satisfaction_scores :: "(string \<times> int) list"
  total_interactions :: nat

text \<open>The record that \<open>export_session_log\<close> writes to the file; the session is only read.\<close>

definition export_session_log ::
  "'x env \<Rightarrow> orchestrator \<Rightarrow> 'x world \<Rightarrow> session_data \<times> orchestrator \<times> 'x world" where
  "export_session_log env s w =
     (let (ts, w) = datetime_now_isoformat env w
      in (\<lparr>export_topic = research_topic s, export_timestamp = ts,
           export_agents = map get_summary (agents s),
           export_discussion_log = discussion_log s,
           export_satisfaction_scores = satisfaction_scores s,
           total_interactions = length (discussion_log s)\<rparr>, s, w))"

definition improvement_turn ::
  "'x env \<Rightarrow> string \<Rightarrow> log_entry list \<Rightarrow> agent \<Rightarrow> (string \<times> string) list \<times> 'x world
     \<Rightarrow> agent \<times> (string \<times> string) list \<times> 'x world" where
  "improvement_turn env t lg a st =
     (let (results, w) = st;
          feedback = ''Research topic: '' @ t @ ''. Recent discussions: '' @
                     str_nat (length lg) @ ''.'';
          (result, a, w) = improve_system_prompt env (Some feedback) a w
      in (a, results @ [(name a, result)], w))"

definition trigger_self_improvement ::
  "'x env \<Rightarrow> orchestrator \<Rightarrow> 'x world \<Rightarrow> (string \<times> string) list \<times> orchestrator \<times> 'x world" where
  "trigger_self_improvement env s w =
     (let (ags, results, w) =
            for_agents (improvement_turn env (research_topic s) (discussion_log s)) (agents s)
              ([], w)
      in (results, s\<lparr>agents := ags\<rparr>, w))"

section \<open>Sessions\<close>

text \<open>
  What a driver can do with a session: the methods of the orchestrator, and, on an agent
  of the roster (the object \<open>add_agent\<close> returned, given here by its position), the
  agent's own methods and the assignment to \<open>system_prompt\<close>. A command on a position
  outside the roster names no object and does nothing.
\<close>

datatype command =
    Add_agent string string string
  | Initialize_default_team
  | Set_research_topic string
  | Conduct_brainstorm_session int
  | Conduct_research_phase "string list"
  | Structured_discussion string int
  | Evaluate_satisfaction
  | Check_consensus
  | Generate_paper_sections
  | Compile_final_paper
  | Export_session_log
  | Trigger_self_improvement
  | Agent_generate_response nat string "message list option"
  | Agent_improve_system_prompt nat "string option"
  | Agent_add_research_note nat string
  | Agent_set_system_prompt nat string

definition on_agent ::
  "nat \<Rightarrow> (agent \<Rightarrow> 'x world \<Rightarrow> agent \<times> 'x world) \<Rightarrow> orchestrator \<times> 'x world
     \<Rightarrow> orchestrator \<times> 'x world" where
  "on_agent i f sw =
     (let (s, w) = sw
      in if i < length (agents s)
         then (let (a, w) = f (agents s ! i) w in (s\<lparr>agents := (agents s)[i := a]\<rparr>, w))
         else (s, w))"

fun run :: "'x env \<Rightarrow> command \<Rightarrow> orchestrator \<times> 'x world \<Rightarrow> orchestrator \<times> 'x world" where
  "run env (Add_agent nm sp mdl) (s, w) = (snd (add_agent nm sp mdl s), w)"
| "run env Initialize_default_team (s, w) = (initialize_default_team s, w)"
| "run env (Set_research_topic t) (s, w) = (set_research_topic t s, w)"
| "run env (Conduct_brainstorm_session rounds) (s, w) =
     snd (conduct_brainstorm_session env rounds s w)"
| "run env (Conduct_research_phase qs) (s, w) = snd (conduct_research_phase env qs s w)"
| "run env (Structured_discussion t rounds) (s, w) =
     snd (structured_discussion env t rounds s w)"
| "run env Evaluate_satisfaction (s, w) = snd (evaluate_satisfaction env s w)"
| "run env Check_consensus (s, w) = (s, w)"
| "run env Generate_paper_sections (s, w) = snd (generate_paper_sections env s w)"
| "run env Compile_final_paper (s, w) = snd (compile_final_paper env s w)"
| "run env Export_session_log (s, w) = snd (export_session_log env s w)"
| "run env Trigger_self_improvement (s, w) = snd (trigger_self_improvement env s w)"
| "run env (Agent_generate_response i p ctx) (s, w) =
     on_agent i (\<lambda>a w. snd (generate_response env p ctx a w)) (s, w)"
| "run env (Agent_improve_system_prompt i fb) (s, w) =
     on_agent i (\<lambda>a w. snd (improve_system_prompt env fb a w)) (s, w)"
| "run env (Agent_add_research_note i text) (s, w) =
     on_agent i (add_research_note env text) (s, w)"
| "run env (Agent_set_system_prompt i text) (s, w) =
     on_agent i (\<lambda>a w. (a\<lparr>system_prompt := text\<rparr>, w)) (s, w)"

text \<open>The sessions a driver can reach from a fresh orchestrator.\<close>

inductive reachable :: "'x env \<Rightarrow> orchestrator \<times> 'x world \<Rightarrow> bool" for env :: "'x env" where
  fresh: "reachable env (ResearchOrchestrator, w)"
| step: "reachable env sw \<Longrightarrow> reachable env (run env c sw)"

text \<open>The commands that register agents.\<close>

definition registers :: "command \<Rightarrow> bool" where
  "registers c = (case c of Add_agent nm sp mdl \<Rightarrow> True | Initialize_default_team \<Rightarrow> True
                  | _ \<Rightarrow> False)"

section \<open>Specification-level notions\<close>

text \<open>The window of the last \<open>min(10, length)\<close> context messages, oldest first.\<close>

definition context_window :: "message list \<Rightarrow> message list" where
  "context_window ctx = drop (length ctx - min 10 (length ctx)) ctx"

text \<open>The message list of a respond call: the system instructions, the window of the
  context (nothing when no context is given), the user prompt. The message list of a
  revise call. Both are used to name the gateway's answer to the call.\<close>

definition respond_messages :: "agent \<Rightarrow> string \<Rightarrow> message list option \<Rightarrow> message list" where
  "respond_messages a p context =
     \<lparr>role = ''system'', content = system_prompt a\<rparr>
       # (case context of None \<Rightarrow> [] | Some ctx \<Rightarrow> context_window ctx)
       @ [\<lparr>role = ''user'', content = p\<rparr>]"

definition revise_messages :: "agent \<Rightarrow> string option \<Rightarrow> message list" where
  "revise_messages a feedback =
     [\<lparr>role = ''system'', content = ''You are a meta-AI that improves AI system prompts.''\<rparr>,
      \<lparr>role = ''user'', content = improvement_prompt a feedback\<rparr>]"

text \<open>
  Two orders of the pairs (round, agent name) for rounds \<open>1..R\<close>. Round-major: round by
  round, the roster in order within each round. Roster-major: agent by agent, the rounds
  in order for each agent.
\<close>

definition round_major :: "string list \<Rightarrow> nat \<Rightarrow> (nat \<times> string) list" where
  "round_major names R = concat (map (\<lambda>r. map (\<lambda>n. (r, n)) names) [1..<Suc R])"

definition roster_major :: "string list \<Rightarrow> nat \<Rightarrow> (nat \<times> string) list" where
  "roster_major names R = concat (map (\<lambda>n. map (\<lambda>r. (r, n)) [1..<Suc R]) names)"

definition arithmetic_mean :: "int list \<Rightarrow> rat" where
  "arithmetic_mean vs = of_int (sum_list vs) / of_nat (length vs)"

text \<open>The value of a string of decimal digits.\<close>

definition decimal_value :: "string \<Rightarrow> nat" where
  "decimal_value ds = foldl (\<lambda>n c. 10 * n + (of_char c - 48)) 0 ds"

text \<open>
  The score the specification describes for a response: the digit characters of the first
  token, read as a number and clamped to \<open>[1, 10]\<close>; 5 when there is no token, no digit,
  or the digits cannot be read (a character that is not a decimal digit, or more digits
  than the interpreter converts).
\<close>

definition spec_score :: "nat \<Rightarrow> string \<Rightarrow> int" where
  "spec_score max_str_digits resp =
     (let first_token = takeWhile (\<lambda>c. \<not> isspace c) (dropWhile isspace resp);
          digits = filter isdigit first_token
      in if digits = [] then 5
         else if list_all isdecimal digits
                 \<and> (max_str_digits = 0 \<or> length digits \<le> max_str_digits)
              then max 1 (min 10 (int (decimal_value digits)))
         else 5)"

text \<open>
  The responses that the agents of a roster give to the rating request, in roster order:
  each agent is asked in the world that the turn of the agent before it left.
\<close>

fun rating_responses ::
  "'x env \<Rightarrow> string \<Rightarrow> log_entry list \<Rightarrow> agent list \<Rightarrow> 'x world \<Rightarrow> string list" where
  "rating_responses env t lg [] w = []"
| "rating_responses env t lg (a # as) w =
     (let (resp, a', w') = generate_response env (satisfaction_prompt t a lg) None a w
      in resp # rating_responses env t lg as w')"

text \<open>The table after the score of each response has been stored under the name beside
  it, from left to right.\<close>

definition store_scores ::
  "nat \<Rightarrow> (string \<times> int) list \<Rightarrow> (string \<times> string) list \<Rightarrow> (string \<times> int) list" where
  "store_scores max_str_digits sc named =
     foldl (\<lambda>sc (n, resp). AList.update n (spec_score max_str_digits resp) sc) sc named"

section \<open>A scripted outside world\<close>

text \<open>
  The outside state is the list of the gateway's answers still to come; a call takes the
  first one, and fails with a refused connection when none is left. The clock is frozen.
\<close>

definition scripted_env :: "(string + string) list env" where
  "scripted_env =
     \<lparr>gateway = (\<lambda>mdl messages replies.
                   case replies of
                     [] \<Rightarrow> (Inl ''connection refused'', [])
                   | r # rs \<Rightarrow> (r, rs)),
      now_isoformat = (\<lambda>x. (''2024-01-01T00:00:00'', x)),
      now_str = (\<lambda>x. (''2024-01-01 00:00:00'', x)),
      requests_get = (\<lambda>u params x. (Inr 200, x)),
      json_dumps = (\<lambda>results. ''[]''),
      int_max_str_digits = 4300\<rparr>"

definition scripted_world :: "(string + string) list \<Rightarrow> (string + string) list world" where
  "scripted_world replies = \<lparr>sent = [], outside = replies\<rparr>"

text \<open>A roster of two agents, A and B, on topic X.\<close>

definition roster_AB :: orchestrator where
  "roster_AB =
     set_research_topic ''X''
       (snd (add_agent ''B'' ''Ethics'' ''llama3.1''
          (snd (add_agent ''A'' ''Vision'' ''llama3.1'' ResearchOrchestrator))))"

text \<open>A single agent, and a context of \<open>n\<close> numbered messages.\<close>

definition agent_A :: agent where
  "agent_A = ResearchAgent ''A'' ''Vision'' ''llama3.1''"

definition numbered_context :: "nat \<Rightarrow> message list" where
  "numbered_context n = map (\<lambda>i. \<lparr>role = ''assistant'', content = str_nat i\<rparr>) [0..<n]"

section \<open>Properties of the agent\<close>

subsection \<open>What a respond call does, by the gateway's answer\<close>

lemma last_n_window: "last_n 10 ctx = context_window ctx"
  by (simp add: last_n_def context_window_def min_def)

lemma generate_response_unfold:
  "generate_response env p ctx a w =
     (case gateway env (model a) (respond_messages a p ctx) (outside w) of
        (Inr c, x) \<Rightarrow>
          (c,
           a\<lparr>conversation_history := conversation_history a @
                [\<lparr>timestamp = fst (now_isoformat env x), prompt = p, response = c\<rparr>]\<rparr>,
           \<lparr>sent = sent w @ [(model a, respond_messages a p ctx)],
            outside = snd (now_isoformat env x)\<rparr>)
      | (Inl e, x) \<Rightarrow>
          (''Error generating response: '' @ e, a,
           \<lparr>sent = sent w @ [(model a, respond_messages a p ctx)], outside = x\<rparr>))"
proof -
  have m: "(case ctx of None \<Rightarrow> [\<lparr>role = ''system'', content = system_prompt a\<rparr>]
            | Some c \<Rightarrow> if c \<noteq> [] then [\<lparr>role = ''system'', content = system_prompt a\<rparr>] @ last_n 10 c
                        else [\<lparr>role = ''system'', content = system_prompt a\<rparr>])
           @ [\<lparr>role = ''user'', content = p\<rparr>] = respond_messages a p ctx"
    by (cases ctx) (auto simp: respond_messages_def last_n_window context_window_def)
  show ?thesis
    unfolding generate_response_def ollama_chat_def datetime_now_isoformat_def Let_def m
    by (auto split: prod.splits sum.splits)
qed

lemma generate_response_sent:
  "sent (snd (snd (generate_response env p ctx a w))) =
     sent w @ [(model a, respond_messages a p ctx)]"
  by (simp add: generate_response_unfold split: prod.splits sum.splits)

lemma length_context_window: "length (context_window ctx) = min 10 (length ctx)"
  by (simp add: context_window_def)

lemma suffix_context_window: "suffix (context_window ctx) ctx"
  unfolding context_window_def by (rule suffix_drop)

text \<open>
  Claim C3. Whatever the length of the context list, the request a respond call hands to
  the gateway is the system instructions, then the last \<open>min(10, length)\<close> context messages
  in their original order (a suffix of the context, so the oldest are the ones dropped),
  then the user prompt.
\<close>

theorem respond_sends_context_window:
  "sent (snd (snd (generate_response env p (Some ctx) a w))) =
     sent w @ [(model a,
                \<lparr>role = ''system'', content = system_prompt a\<rparr>
                  # context_window ctx @ [\<lparr>role = ''user'', content = p\<rparr>])]
   \<and> length (context_window ctx) = min 10 (length ctx)
   \<and> suffix (context_window ctx) ctx"
  by (simp add: generate_response_sent respond_messages_def length_context_window
        suffix_context_window)

lemma numbered_context_15: "context_window (numbered_context 15) = map (\<lambda>i. \<lparr>role = ''assistant'', content = str_nat i\<rparr>) [5..<15]"
  unfolding context_window_def numbered_context_def
  by (simp add: drop_map)

theorem respond_sends_context_window_witness:
  "sent (snd (snd (generate_response scripted_env ''p'' (Some (numbered_context 15)) agent_A
                     (scripted_world [Inr ''ok''])))) =
     [(''llama3.1'',
       \<lparr>role = ''system'', content = create_initial_prompt ''A'' ''Vision''\<rparr>
         # map (\<lambda>i. \<lparr>role = ''assistant'', content = str_nat i\<rparr>) [5..<15]
         @ [\<lparr>role = ''user'', content = ''p''\<rparr>])]
   \<and> length (context_window (numbered_context 15)) = 10"
  using respond_sends_context_window [of scripted_env "''p''" "numbered_context 15" agent_A
      "scripted_world [Inr ''ok'']"]
  by (simp add: numbered_context_15 scripted_world_def agent_A_def ResearchAgent_def)

lemma improve_system_prompt_unfold:
  "improve_system_prompt env fb a w =
     (case gateway env (model a) (revise_messages a fb) (outside w) of
        (Inr c, x) \<Rightarrow>
          (report_mark @ '' Prompt improved! (v'' @ str_nat (improvement_count a + 1) @
             '')\<newline>\<newline>Old length: '' @ str_nat (length (system_prompt a)) @
             '' chars\<newline>New length: '' @ str_nat (length (strip c)) @ '' chars'',
           a\<lparr>system_prompt := strip c, improvement_count := improvement_count a + 1\<rparr>,
           \<lparr>sent = sent w @ [(model a, revise_messages a fb)], outside = x\<rparr>)
      | (Inl e, x) \<Rightarrow>
          (''Error improving prompt: '' @ e, a,
           \<lparr>sent = sent w @ [(model a, revise_messages a fb)], outside = x\<rparr>))"
  unfolding improve_system_prompt_def ollama_chat_def Let_def revise_messages_def
  by (auto split: prod.splits sum.splits)

lemma strip_decompose:
  "s = takeWhile isspace s @ strip s @ rev (takeWhile isspace (rev (dropWhile isspace s)))"
proof -
  let ?d = "dropWhile isspace s"
  have "?d = rev (takeWhile isspace (rev ?d) @ dropWhile isspace (rev ?d))"
    by simp
  then have "?d = strip s @ rev (takeWhile isspace (rev ?d))"
    by (simp only: rev_append strip_def)
  then have "takeWhile isspace s @ ?d =
          takeWhile isspace s @ strip s @ rev (takeWhile isspace (rev ?d))"
    by simp
  then show ?thesis by simp
qed

lemma list_all_takeWhile: "list_all P (takeWhile P xs)"
  by (induction xs) auto

text \<open>
  Claim C4, as the code has it. A respond call appends one (prompt, response, timestamp)
  record to the agent's history when the gateway answers; when the gateway fails, the
  call returns the text \<open>Error generating response: ...\<close> and leaves the agent, its
  history included, as it was.
\<close>

theorem respond_history:
  assumes "gateway env (model a) (respond_messages a p ctx) (outside w) = (reply, x)"
  shows "case reply of
           Inr c \<Rightarrow>
             fst (generate_response env p ctx a w) = c
             \<and> fst (snd (generate_response env p ctx a w)) =
                 a\<lparr>conversation_history := conversation_history a @
                      [\<lparr>timestamp = fst (now_isoformat env x), prompt = p, response = c\<rparr>]\<rparr>
         | Inl e \<Rightarrow>
             fst (generate_response env p ctx a w) = ''Error generating response: '' @ e
             \<and> fst (snd (generate_response env p ctx a w)) = a"
  using assms by (simp add: generate_response_unfold split: sum.splits)

theorem respond_history_witness:
  "fst (generate_response scripted_env ''hi'' None agent_A (scripted_world [Inr ''yo''])) = ''yo''
   \<and> conversation_history
        (fst (snd (generate_response scripted_env ''hi'' None agent_A
                     (scripted_world [Inr ''yo''])))) =
       [\<lparr>timestamp = ''2024-01-01T00:00:00'', prompt = ''hi'', response = ''yo''\<rparr>]
   \<and> fst (generate_response scripted_env ''hi'' None agent_A
            (scripted_world [Inl ''model not found''])) =
       ''Error generating response: model not found''
   \<and> fst (snd (generate_response scripted_env ''hi'' None agent_A
                 (scripted_world [Inl ''model not found'']))) = agent_A"
proof -
  have ok: "gateway scripted_env (model agent_A) (respond_messages agent_A ''hi'' None)
              (outside (scripted_world [Inr ''yo''])) = (Inr ''yo'', [])"
    by (simp add: scripted_env_def scripted_world_def)
  have ko: "gateway scripted_env (model agent_A) (respond_messages agent_A ''hi'' None)
              (outside (scripted_world [Inl ''model not found''])) = (Inl ''model not found'', [])"
    by (simp add: scripted_env_def scripted_world_def)
  show ?thesis
    using respond_history [OF ok] respond_history [OF ko]
    by (simp add: scripted_env_def agent_A_def ResearchAgent_def)
qed

text \<open>Claim C4 as stated fails: with a gateway that refuses the connection, the call
  returns the error marker and the history is still empty.\<close>

theorem respond_failure_counterexample:
  "fst (generate_response scripted_env ''hi'' None agent_A (scripted_world [])) =
     ''Error generating response: connection refused''
   \<and> conversation_history
        (fst (snd (generate_response scripted_env ''hi'' None agent_A (scripted_world [])))) = []
   \<and> length (conversation_history
        (fst (snd (generate_response scripted_env ''hi'' None agent_A (scripted_world [])))))
       \<noteq> length (conversation_history agent_A) + 1"
  by (simp add: generate_response_unfold scripted_env_def scripted_world_def agent_A_def
        ResearchAgent_def)

text \<open>
  Claim C7, as the code has it. A successful revise call increments the revision count by
  exactly one and replaces the instructions by the gateway's response with its leading
  and trailing whitespace stripped: the response is the new instructions between two
  runs of whitespace, and the new instructions neither start nor end with whitespace.
  Nothing else about the text is checked.
\<close>

theorem revise_success:
  assumes "gateway env (model a) (revise_messages a fb) (outside w) = (Inr c, x)"
  shows "improvement_count (fst (snd (improve_system_prompt env fb a w))) =
           improvement_count a + 1
         \<and> system_prompt (fst (snd (improve_system_prompt env fb a w))) = strip c
         \<and> (\<exists>pre post. c = pre @ strip c @ post \<and> list_all isspace pre \<and> list_all isspace post)
         \<and> (strip c = [] \<or> (\<not> isspace (hd (strip c)) \<and> \<not> isspace (last (strip c))))"
proof -
  have dec: "\<exists>pre post. c = pre @ strip c @ post \<and> list_all isspace pre \<and> list_all isspace post"
    using strip_decompose [of c] list_all_takeWhile [of isspace c]
      list_all_takeWhile [of isspace "rev (dropWhile isspace c)"]
    by (metis list_all_rev)
  have ends: "strip c = [] \<or> (\<not> isspace (hd (strip c)) \<and> \<not> isspace (last (strip c)))"
  proof (cases "strip c = []")
    case True then show ?thesis by simp
  next
    case False
    let ?d = "dropWhile isspace c"
    let ?e = "dropWhile isspace (rev ?d)"
    have ne: "?e \<noteq> []" using False by (simp add: strip_def)
    have l: "\<not> isspace (hd ?e)" using ne by (rule hd_dropWhile)
    have "?d \<noteq> []"
    proof
      assume "?d = []"
      then have "?e = []" by (metis dropWhile.simps(1) rev.simps(1))
      with ne show False by contradiction
    qed
    then have h: "\<not> isspace (hd ?d)" by (rule hd_dropWhile)
    have "rev ?d = takeWhile isspace (rev ?d) @ ?e" by simp
    then have "?d = rev ?e @ rev (takeWhile isspace (rev ?d))"
      by (metis rev_append rev_rev_ident)
    then have "hd ?d = hd (rev ?e)" using ne by (metis hd_append2 rev_is_Nil_conv)
    with h l ne show ?thesis
      by (simp add: strip_def hd_rev last_rev)
  qed
  show ?thesis using assms dec ends
    by (simp add: improve_system_prompt_unfold)
qed

theorem revise_success_witness:
  "improvement_count (fst (snd (improve_system_prompt scripted_env None agent_A
      (scripted_world [Inr ''Be brief.''])))) = 1
   \<and> system_prompt (fst (snd (improve_system_prompt scripted_env None agent_A
      (scripted_world [Inr ''Be brief.''])))) = ''Be brief.''"
proof -
  have ok: "gateway scripted_env (model agent_A) (revise_messages agent_A None)
              (outside (scripted_world [Inr ''Be brief.''])) = (Inr ''Be brief.'', [])"
    by (simp add: scripted_env_def scripted_world_def)
  have "strip ''Be brief.'' = ''Be brief.''"
    by (simp add: strip_def isspace_def)
  with revise_success [OF ok] show ?thesis
    by (simp add: agent_A_def ResearchAgent_def)
qed

text \<open>Claim C7 as stated fails: the response \<open>" x "\<close> is not stored verbatim.\<close>

theorem revise_verbatim_counterexample:
  "system_prompt (fst (snd (improve_system_prompt scripted_env None agent_A
      (scripted_world [Inr '' x ''])))) = ''x''
   \<and> system_prompt (fst (snd (improve_system_prompt scripted_env None agent_A
      (scripted_world [Inr '' x ''])))) \<noteq> '' x ''"
  by (simp add: improve_system_prompt_unfold scripted_env_def scripted_world_def strip_def
        isspace_def)

text \<open>
  Claim C10. When the gateway call of a revise call fails, the agent is unchanged
  (instructions, revision count, history and notes), and the call returns the text
  \<open>Error improving prompt: ...\<close>, which is not an improvement report.
\<close>

theorem revise_failure_atomic:
  assumes "gateway env (model a) (revise_messages a fb) (outside w) = (Inl e, x)"
  shows "fst (improve_system_prompt env fb a w) = ''Error improving prompt: '' @ e
         \<and> fst (snd (improve_system_prompt env fb a w)) = a
         \<and> system_prompt (fst (snd (improve_system_prompt env fb a w))) = system_prompt a
         \<and> improvement_count (fst (snd (improve_system_prompt env fb a w))) = improvement_count a
         \<and> conversation_history (fst (snd (improve_system_prompt env fb a w))) =
             conversation_history a
         \<and> research_notes (fst (snd (improve_system_prompt env fb a w))) = research_notes a
         \<and> \<not> prefix report_mark (fst (improve_system_prompt env fb a w))"
  using assms by (simp add: improve_system_prompt_unfold report_mark_def)

theorem revise_failure_atomic_witness:
  "fst (improve_system_prompt scripted_env (Some ''too vague'') agent_A (scripted_world [])) =
     ''Error improving prompt: connection refused''
   \<and> fst (snd (improve_system_prompt scripted_env (Some ''too vague'') agent_A
                 (scripted_world []))) = agent_A"
proof -
  have ko: "gateway scripted_env (model agent_A) (revise_messages agent_A (Some ''too vague''))
              (outside (scripted_world [])) = (Inl ''connection refused'', [])"
    by (simp add: scripted_env_def scripted_world_def)
  from revise_failure_atomic [OF ko] show ?thesis
    by simp
qed

section \<open>Properties of the orchestrator\<close>

subsection \<open>Brainstorm: the transcript\<close>

lemma generate_response_result:
  assumes "generate_response env p ctx a w = (resp, a', w')"
  shows "name a' = name a" and "specialty a' = specialty a" and "model a' = model a"
    and "system_prompt a' = system_prompt a" and "research_notes a' = research_notes a"
    and "improvement_count a' = improvement_count a"
    and "sent w' = sent w @ [(model a, respond_messages a p ctx)]"
  using assms
  by (auto simp: generate_response_unfold split: prod.splits sum.splits)


lemma for_agents_Cons:
  "body a st = (a1, st1) \<Longrightarrow> for_agents body as st1 = (as1, st2) \<Longrightarrow>
     for_agents body (a # as) st = (a1 # as1, st2)"
  by simp

text \<open>The request of one brainstorm turn and the key of its log entry.\<close>

lemma for_agents_brainstorm:
  assumes "for_agents (brainstorm_turn env t R r res) ags (ideas, lg, w) = (ags', ideas', lg', w')"
  shows "map name ags' = map name ags \<and> map specialty ags' = map specialty ags
       \<and> map model ags' = map model ags \<and> map system_prompt ags' = map system_prompt ags
       \<and> length ideas' = length ideas + length ags \<and> take (length ideas) ideas' = ideas
       \<and> (\<exists>new. lg' = lg @ new
             \<and> map (\<lambda>e. (log_round e, log_agent e, log_type e)) new =
                 map (\<lambda>a. (Some (r + 1), name a, ''brainstorm'')) ags)
       \<and> sent w' = sent w @
            map (\<lambda>a. (model a,
                       [\<lparr>role = ''system'', content = system_prompt a\<rparr>,
                        \<lparr>role = ''user'', content = brainstorm_prompt t r R res a\<rparr>])) ags"
  using assms
proof (induction ags arbitrary: ideas lg w ags' ideas' lg' w')
  case Nil
  then show ?case by simp
next
  case (Cons a as)
  obtain resp a1 w1 where
    g: "generate_response env (brainstorm_prompt t r R res a) None a w = (resp, a1, w1)"
    by (metis prod_cases3)
  let ?idea = "''['' @ name a1 @ '']: '' @ resp"
  let ?entry = "\<lparr>log_round = Some (r + 1), log_agent = name a1, log_type = ''brainstorm'',
                  log_topic = None, log_content = Some resp, log_query = None,
                  log_analysis = None\<rparr>"
  obtain as1 ideas1 lg1 w2 where
    rec: "for_agents (brainstorm_turn env t R r res) as (ideas @ [?idea], lg @ [?entry], w1) =
            (as1, ideas1, lg1, w2)"
    by (metis prod_cases4)
  have turn: "brainstorm_turn env t R r res a (ideas, lg, w) =
                (a1, ideas @ [?idea], lg @ [?entry], w1)"
    by (simp add: brainstorm_turn_def g)
  have "for_agents (brainstorm_turn env t R r res) (a # as) (ideas, lg, w) =
          (a1 # as1, ideas1, lg1, w2)"
    by (rule for_agents_Cons [OF turn rec])
  with Cons.prems have eqs: "ags' = a1 # as1" "ideas' = ideas1" "lg' = lg1" "w' = w2"
    by simp_all
  note ih = Cons.IH [OF rec]
  note gr = generate_response_result [OF g]
  from ih obtain new where new: "lg1 = (lg @ [?entry]) @ new"
      "map (\<lambda>e. (log_round e, log_agent e, log_type e)) new =
         map (\<lambda>a. (Some (r + 1), name a, ''brainstorm'')) as"
    by blast
  have lg: "\<exists>new'. lg' = lg @ new'
             \<and> map (\<lambda>e. (log_round e, log_agent e, log_type e)) new' =
                 map (\<lambda>a. (Some (r + 1), name a, ''brainstorm'')) (a # as)"
    using new gr(1) by (intro exI [of _ "?entry # new"]) (simp add: eqs)
  have tk: "take (length ideas) ideas' = ideas"
  proof -
    from ih have "take (length (ideas @ [?idea])) ideas1 = ideas @ [?idea]" by blast
    then have "take (length ideas) (take (length (ideas @ [?idea])) ideas1) = ideas"
      by simp
    then show ?thesis by (simp add: eqs min_def)
  qed
  have snt: "sent w' = sent w @
            map (\<lambda>a. (model a,
                       [\<lparr>role = ''system'', content = system_prompt a\<rparr>,
                        \<lparr>role = ''user'', content = brainstorm_prompt t r R res a\<rparr>])) (a # as)"
    using ih gr(7) by (simp add: eqs respond_messages_def)
  from ih gr lg tk snt show ?case
    by (simp add: eqs)
qed


lemma brainstorm_round_result:
  assumes "brainstorm_round env t R (ags, res, lg, w) r = (ags', res', lg', w')"
  shows "map name ags' = map name ags \<and> map specialty ags' = map specialty ags
       \<and> map model ags' = map model ags \<and> map system_prompt ags' = map system_prompt ags
       \<and> length res' = length res + length ags \<and> take (length res) res' = res
       \<and> (\<exists>new. lg' = lg @ new
             \<and> map (\<lambda>e. (log_round e, log_agent e, log_type e)) new =
                 map (\<lambda>n. (Some (r + 1), n, ''brainstorm'')) (map name ags))
       \<and> sent w' = sent w @
            map (\<lambda>a. (model a,
                       [\<lparr>role = ''system'', content = system_prompt a\<rparr>,
                        \<lparr>role = ''user'', content = brainstorm_prompt t r R res a\<rparr>])) ags"
proof -
  obtain ags1 ideas1 lg1 w1 where
    fa: "for_agents (brainstorm_turn env t R r res) ags ([], lg, w) = (ags1, ideas1, lg1, w1)"
    by (metis prod_cases4)
  from assms have eqs: "ags' = ags1" "res' = res @ ideas1" "lg' = lg1" "w' = w1"
    by (simp_all add: brainstorm_round_def fa)
  from for_agents_brainstorm [OF fa] show ?thesis
    by (simp add: eqs comp_def)
qed

lemma brainstorm_rounds_log:
  assumes "foldl (brainstorm_round env t R) (ags, res, lg, w) rs = (ags', res', lg', w')"
  shows "map name ags' = map name ags
       \<and> (\<exists>new. lg' = lg @ new
             \<and> map (\<lambda>e. (log_round e, log_agent e, log_type e)) new =
                 concat (map (\<lambda>r. map (\<lambda>n. (Some (r + 1), n, ''brainstorm'')) (map name ags)) rs))"
  using assms
proof (induction rs arbitrary: ags res lg w)
  case Nil
  then show ?case by simp
next
  case (Cons r rs)
  obtain ags1 res1 lg1 w1 where
    rd: "brainstorm_round env t R (ags, res, lg, w) r = (ags1, res1, lg1, w1)"
    by (metis prod_cases4)
  from Cons.prems have rest:
    "foldl (brainstorm_round env t R) (ags1, res1, lg1, w1) rs = (ags', res', lg', w')"
    by (simp add: rd)
  from brainstorm_round_result [OF rd] obtain new1 where
    n1: "map name ags1 = map name ags" "lg1 = lg @ new1"
      "map (\<lambda>e. (log_round e, log_agent e, log_type e)) new1 =
         map (\<lambda>n. (Some (r + 1), n, ''brainstorm'')) (map name ags)"
    by blast
  from Cons.IH [OF rest] obtain new2 where
    n2: "map name ags' = map name ags1" "lg' = lg1 @ new2"
      "map (\<lambda>e. (log_round e, log_agent e, log_type e)) new2 =
         concat (map (\<lambda>r. map (\<lambda>n. (Some (r + 1), n, ''brainstorm'')) (map name ags1)) rs)"
    by blast
  show ?case
    using n1 n2 by (intro conjI exI [of _ "new1 @ new2"]) simp_all
qed

text \<open>The log that a brainstorm session leaves, whatever the gateway answers.\<close>

lemma brainstorm_session_log:
  assumes "conduct_brainstorm_session env rounds s w = (ideas, s', w')"
  shows "\<exists>new. discussion_log s' = discussion_log s @ new
           \<and> map (\<lambda>e. (log_round e, log_agent e)) new =
               map (\<lambda>(r, n). (Some r, n)) (round_major (map name (agents s)) (nat rounds))
           \<and> list_all (\<lambda>e. log_type e = ''brainstorm'') new
           \<and> length new = length (agents s) * nat rounds"
proof -
  obtain ags1 res1 lg1 w1 where
    f: "foldl (brainstorm_round env (research_topic s) rounds)
          (agents s, [], discussion_log s, w) [0..<nat rounds] = (ags1, res1, lg1, w1)"
    by (metis prod_cases4)
  from assms have s': "discussion_log s' = lg1"
    by (auto simp: conduct_brainstorm_session_def py_range_def f)
  let ?names = "map name (agents s)"
  from brainstorm_rounds_log [OF f] obtain new where
    new: "lg1 = discussion_log s @ new"
      "map (\<lambda>e. (log_round e, log_agent e, log_type e)) new =
         concat (map (\<lambda>r. map (\<lambda>n. (Some (r + 1), n, ''brainstorm'')) ?names) [0..<nat rounds])"
    by blast
  have up: "[1..<Suc (nat rounds)] = map Suc [0..<nat rounds]"
    by (simp add: map_Suc_upt)
  have "map (\<lambda>e. (log_round e, log_agent e)) new =
          map (\<lambda>(r, n, ty). (r, n)) (map (\<lambda>e. (log_round e, log_agent e, log_type e)) new)"
    by simp
  also have "\<dots> = map (\<lambda>(r, n). (Some r, n)) (round_major ?names (nat rounds))"
    unfolding new(2) round_major_def up
    by (simp add: map_concat comp_def)
  finally have keys: "map (\<lambda>e. (log_round e, log_agent e)) new =
      map (\<lambda>(r, n). (Some r, n)) (round_major ?names (nat rounds))" .
  have "map log_type new =
          map (\<lambda>(r, n, ty). ty) (map (\<lambda>e. (log_round e, log_agent e, log_type e)) new)"
    by simp
  also have "\<dots> = concat (map (\<lambda>r. map (\<lambda>n. ''brainstorm'') ?names) [0..<nat rounds])"
    unfolding new(2) by (simp add: map_concat comp_def)
  finally have ty: "map log_type new =
      concat (map (\<lambda>r. map (\<lambda>n. ''brainstorm'') ?names) [0..<nat rounds])" .
  have "set (map log_type new) \<subseteq> {''brainstorm''}"
    unfolding ty by auto
  then have types: "list_all (\<lambda>e. log_type e = ''brainstorm'') new"
    by (auto simp: list_all_iff)
  have "length new = length (map log_type new)" by simp
  also have "\<dots> = length (agents s) * nat rounds"
    unfolding ty by (simp add: length_concat comp_def sum_list_triv)
  finally have len: "length new = length (agents s) * nat rounds" .
  from s' new(1) keys types len show ?thesis by blast
qed

lemma roster_AB_fields:
  "map name (agents roster_AB) = [''A'', ''B'']"
  "discussion_log roster_AB = []"
  "research_topic roster_AB = ''X''"
  "map specialty (agents roster_AB) = [''Vision'', ''Ethics'']"
  "length (agents roster_AB) = 2"
  by (simp_all add: roster_AB_def add_agent_def set_research_topic_def ResearchOrchestrator_def
        ResearchAgent_def Let_def)

lemma major_AB:
  "round_major [''A'', ''B''] 2 = [(1, ''A''), (1, ''B''), (2, ''A''), (2, ''B'')]"
  "roster_major [''A'', ''B''] 2 = [(1, ''A''), (2, ''A''), (1, ''B''), (2, ''B'')]"
  by (simp_all add: round_major_def roster_major_def upt_rec)

text \<open>
  Claim C1, as the code has it. A brainstorm session with \<open>rounds = R\<close> on a roster of \<open>N\<close>
  agents appends exactly \<open>N * R\<close> entries of type brainstorm to the transcript, in
  round-major order: round by round, and within each round one entry per agent in roster
  order.
\<close>

theorem brainstorm_appends_round_major:
  assumes "conduct_brainstorm_session env rounds s w = (ideas, s', w')"
  shows "\<exists>new. discussion_log s' = discussion_log s @ new
           \<and> length new = length (agents s) * nat rounds
           \<and> list_all (\<lambda>e. log_type e = ''brainstorm'') new
           \<and> map (\<lambda>e. (log_round e, log_agent e)) new =
               map (\<lambda>(r, n). (Some r, n)) (round_major (map name (agents s)) (nat rounds))"
  using brainstorm_session_log [OF assms] by blast

theorem brainstorm_appends_round_major_witness:
  "map (\<lambda>e. (log_round e, log_agent e))
     (discussion_log (fst (snd (conduct_brainstorm_session scripted_env 2 roster_AB
        (scripted_world [Inr ''a1'', Inr ''b1'', Inr ''a2'', Inr ''b2''])))))
   = [(Some 1, ''A''), (Some 1, ''B''), (Some 2, ''A''), (Some 2, ''B'')]
   \<and> list_all (\<lambda>e. log_type e = ''brainstorm'')
     (discussion_log (fst (snd (conduct_brainstorm_session scripted_env 2 roster_AB
        (scripted_world [Inr ''a1'', Inr ''b1'', Inr ''a2'', Inr ''b2''])))))"
proof -
  let ?X = "conduct_brainstorm_session scripted_env 2 roster_AB
              (scripted_world [Inr ''a1'', Inr ''b1'', Inr ''a2'', Inr ''b2''])"
  have run: "?X = (fst ?X, fst (snd ?X), snd (snd ?X))" by simp
  from brainstorm_appends_round_major [OF run] show ?thesis
    by (auto simp: roster_AB_fields major_AB)
qed

text \<open>Claim C1 as stated fails: with the roster A, B and two rounds the entries are not in
  roster-major order (all of A's rounds, then all of B's).\<close>

theorem brainstorm_roster_major_counterexample:
  "map name (agents roster_AB) = [''A'', ''B'']
   \<and> map (\<lambda>e. (log_round e, log_agent e))
     (discussion_log (fst (snd (conduct_brainstorm_session scripted_env 2 roster_AB
        (scripted_world [Inr ''a1'', Inr ''b1'', Inr ''a2'', Inr ''b2''])))))
   \<noteq> map (\<lambda>(r, n). (Some r, n)) (roster_major [''A'', ''B''] 2)"
proof -
  let ?X = "conduct_brainstorm_session scripted_env 2 roster_AB
              (scripted_world [Inr ''a1'', Inr ''b1'', Inr ''a2'', Inr ''b2''])"
  have run: "?X = (fst ?X, fst (snd ?X), snd (snd ?X))" by simp
  from brainstorm_session_log [OF run] show ?thesis
    by (auto simp: roster_AB_fields major_AB)
qed

subsection \<open>Brainstorm: what each prompt shows\<close>










subsection \<open>Structured discussion\<close>

text \<open>
  Claim C8 is what the code attempts and misses. On the roster A, B with one round,
  whatever the gateway answers: A's turn goes through (one request, one transcript
  entry), then building B's prompt joins the items of \<open>context\<close>, which are dicts, and
  raises TypeError. The call ends there; no respond call of B is made and no context
  reaches the gateway.
\<close>

theorem structured_discussion_second_turn_raises:
  "fst (structured_discussion env ''Y'' 1 roster_AB w) = Inl TypeError
   \<and> sent (snd (snd (structured_discussion env ''Y'' 1 roster_AB w))) =
       sent w @ [(''llama3.1'',
                  [\<lparr>role = ''system'', content = create_initial_prompt ''A'' ''Vision''\<rparr>,
                   \<lparr>role = ''user'',
                    content = ''Discussion Topic: Y\<newline>'' @
                      ''                \<newline>'' @
                      ''Round 1/1\<newline>'' @
                      ''Research Context: X\<newline>'' @
                      ''\<newline>'' @
                      ''Opening statement:\<newline>'' @
                      ''\<newline>'' @
                      ''\<newline>'' @
                      ''Provide your perspective from Vision. Be analytical and critical.\<newline>''\<rparr>])]
   \<and> map log_agent (discussion_log (fst (snd (structured_discussion env ''Y'' 1 roster_AB w))))
       = [''A'']"
proof -
  have ags: "agents roster_AB = [ResearchAgent ''A'' ''Vision'' ''llama3.1'',
                                  ResearchAgent ''B'' ''Ethics'' ''llama3.1'']"
      "research_topic roster_AB = ''X''" "discussion_log roster_AB = []"
    by (simp_all add: roster_AB_def add_agent_def set_research_topic_def
          ResearchOrchestrator_def Let_def)
  define A where "A = ResearchAgent ''A'' ''Vision'' ''llama3.1''"
  define B where "B = ResearchAgent ''B'' ''Ethics'' ''llama3.1''"
  define p where "p = ''Discussion Topic: Y\<newline>'' @
                      ''                \<newline>'' @
                      ''Round 1/1\<newline>'' @
                      ''Research Context: X\<newline>'' @
                      ''\<newline>'' @
                      ''Opening statement:\<newline>'' @
                      ''\<newline>'' @
                      ''\<newline>'' @
                      ''Provide your perspective from Vision. Be analytical and critical.\<newline>''"
  have p0: "discussion_prompt ''Y'' ''X'' 1 0 [] A = Inr p"
    unfolding A_def p_def by code_simp
  have p1: "discussion_prompt t rt R r [m] a = Inl TypeError" for t rt R r m a
    by (simp add: discussion_prompt_def join_context_def last_n_def)
  obtain resp a1 w1 where g: "generate_response env p (Some []) A w = (resp, a1, w1)"
    by (metis prod_cases3)
  note gr = generate_response_result [OF g]
  have r: "py_range 1 = [0]" by (simp add: py_range_def)
  have "structured_discussion env ''Y'' 1 roster_AB w =
          (Inl TypeError,
           roster_AB\<lparr>agents := [a1, B],
                     discussion_log :=
                       [\<lparr>log_round = Some 1, log_agent = name a1, log_type = ''discussion'',
                         log_topic = Some ''Y'', log_content = Some resp, log_query = None,
                         log_analysis = None\<rparr>]\<rparr>, w1)"
    unfolding structured_discussion_def r ags A_def [symmetric] B_def [symmetric]
    by (simp add: p0 p1 g Let_def)
  then show ?thesis
    using gr unfolding p_def A_def
    by (simp add: respond_messages_def context_window_def ResearchAgent_def)
qed

subsection \<open>Consensus\<close>

lemma check_consensus_int:
  "check_consensus s \<longleftrightarrow>
     satisfaction_scores s \<noteq> []
     \<and> target_satisfaction s * int (length (satisfaction_scores s))
         \<le> sum_list (map snd (satisfaction_scores s))"
proof (cases "satisfaction_scores s = []")
  case True
  then show ?thesis by (simp add: check_consensus_def)
next
  case False
  then have pos: "(0 :: rat) < of_nat (length (satisfaction_scores s))" by simp
  have "(of_int (target_satisfaction s) :: rat)
          \<le> of_int (sum_list (map snd (satisfaction_scores s)))
              / of_nat (length (satisfaction_scores s))
        \<longleftrightarrow> (of_int (target_satisfaction s) :: rat) * of_nat (length (satisfaction_scores s))
              \<le> of_int (sum_list (map snd (satisfaction_scores s)))"
    using pos by (simp add: pos_le_divide_eq)
  also have "\<dots> \<longleftrightarrow> (of_int (target_satisfaction s * int (length (satisfaction_scores s))) :: rat)
              \<le> of_int (sum_list (map snd (satisfaction_scores s)))"
    by simp
  also have "\<dots> \<longleftrightarrow> target_satisfaction s * int (length (satisfaction_scores s))
              \<le> sum_list (map snd (satisfaction_scores s))"
    by (rule of_int_le_iff)
  finally show ?thesis using False by (simp add: check_consensus_def Let_def)
qed

text \<open>
  Claim C6. \<open>check_consensus\<close> is false on an empty table, and otherwise true exactly when
  the arithmetic mean of the scores is at least the target, that is when the sum of the
  scores is at least the target times their number. The target of a fresh orchestrator
  is 8; with it, the scores 9, 9 give true and 9, 6 (mean 7.5) give false.
\<close>

theorem check_consensus_mean:
  "check_consensus s =
     (satisfaction_scores s \<noteq> []
      \<and> arithmetic_mean (map snd (satisfaction_scores s)) \<ge> of_int (target_satisfaction s))
   \<and> check_consensus s =
     (satisfaction_scores s \<noteq> []
      \<and> target_satisfaction s * int (length (satisfaction_scores s))
          \<le> sum_list (map snd (satisfaction_scores s)))
   \<and> target_satisfaction ResearchOrchestrator = 8
   \<and> \<not> check_consensus ResearchOrchestrator
   \<and> check_consensus (ResearchOrchestrator\<lparr>satisfaction_scores := [(''A'', 9), (''B'', 9)]\<rparr>)
   \<and> \<not> check_consensus (ResearchOrchestrator\<lparr>satisfaction_scores := [(''A'', 9), (''B'', 6)]\<rparr>)
   \<and> arithmetic_mean [9, 6] = 15 / 2"
proof -
  have a: "check_consensus s =
     (satisfaction_scores s \<noteq> []
      \<and> arithmetic_mean (map snd (satisfaction_scores s)) \<ge> of_int (target_satisfaction s))"
    by (simp add: check_consensus_def arithmetic_mean_def Let_def)
  have b: "target_satisfaction ResearchOrchestrator = 8"
      "\<not> check_consensus ResearchOrchestrator"
      "check_consensus (ResearchOrchestrator\<lparr>satisfaction_scores := [(''A'', 9), (''B'', 9)]\<rparr>)"
      "\<not> check_consensus (ResearchOrchestrator\<lparr>satisfaction_scores := [(''A'', 9), (''B'', 6)]\<rparr>)"
    by (simp_all add: check_consensus_int ResearchOrchestrator_def)
  have c: "arithmetic_mean [9, 6] = 15 / 2"
    by (simp add: arithmetic_mean_def)
  from a b c check_consensus_int [of s] show ?thesis by blast
qed

subsection \<open>Satisfaction scores\<close>

lemma spec_score_range: "1 \<le> spec_score mx resp \<and> spec_score mx resp \<le> 10"
  by (simp add: spec_score_def Let_def)

lemma extract_score_spec:
  "(case extract_score env resp of Inr v \<Rightarrow> v | Inl e \<Rightarrow> 5) =
     spec_score (int_max_str_digits env) resp"
proof (cases "dropWhile isspace resp")
  case Nil
  have "py_split resp = []" by (subst py_split.simps, subst Nil, simp)
  then show ?thesis by (simp only: extract_score_def spec_score_def Nil Let_def) simp
next
  case (Cons c cs)
  then have "dropWhile isspace resp \<noteq> []" by simp
  then have "\<not> isspace (hd (dropWhile isspace resp))" by (rule hd_dropWhile)
  with Cons have c: "\<not> isspace c" by simp
  have sp: "py_split resp =
      (c # takeWhile (\<lambda>d. \<not> isspace d) cs) # py_split (dropWhile (\<lambda>d. \<not> isspace d) cs)"
    by (subst py_split.simps, subst Cons, simp)
  have tok: "takeWhile (\<lambda>c. \<not> isspace c) (dropWhile isspace resp) =
               c # takeWhile (\<lambda>d. \<not> isspace d) cs"
    using c by (subst Cons) simp
  show ?thesis
    unfolding extract_score_def spec_score_def sp tok Let_def
    by (auto simp: py_int_def decimal_value_def)
qed

lemma evaluate_turn_spec:
  "evaluate_turn env t lg a (sc, w) =
     (let (resp, a', w') = generate_response env (satisfaction_prompt t a lg) None a w
      in (a', AList.update (name a) (spec_score (int_max_str_digits env) resp) sc, w'))"
proof -
  obtain resp a' w' where
    g: "generate_response env (satisfaction_prompt t a lg) None a w = (resp, a', w')"
    by (metis prod_cases3)
  note n = generate_response_result(1) [OF g]
  show ?thesis
    using extract_score_spec [of env resp]
    by (simp add: evaluate_turn_def g n split: sum.splits)
qed

lemma for_agents_evaluate:
  assumes "for_agents (evaluate_turn env t lg) ags (sc, w) = (ags', sc', w')"
  shows "map name ags' = map name ags
       \<and> (\<forall>n v. map_of sc n = Some v \<and> 1 \<le> v \<and> v \<le> 10
              \<longrightarrow> (\<exists>v'. map_of sc' n = Some v' \<and> 1 \<le> v' \<and> v' \<le> 10))
       \<and> (\<forall>n \<in> set (map name ags). \<exists>v. map_of sc' n = Some v \<and> 1 \<le> v \<and> v \<le> 10)
       \<and> fst ` set sc' = fst ` set sc \<union> set (map name ags)
       \<and> (set (map name ags) \<subseteq> fst ` set sc \<longrightarrow> map fst sc' = map fst sc)
       \<and> (distinct (map fst sc) \<longrightarrow> distinct (map fst sc'))"
  using assms
proof (induction ags arbitrary: sc w ags' sc' w')
  case Nil
  then show ?case by auto
next
  case (Cons a as)
  obtain resp a1 w1 where
    g: "generate_response env (satisfaction_prompt t a lg) None a w = (resp, a1, w1)"
    by (metis prod_cases3)
  define v where "v = spec_score (int_max_str_digits env) resp"
  have v: "1 \<le> v" "v \<le> 10" using spec_score_range [of "int_max_str_digits env" resp]
    by (simp_all add: v_def)
  have n1: "name a1 = name a" by (rule generate_response_result(1) [OF g])
  have turn: "evaluate_turn env t lg a (sc, w) = (a1, AList.update (name a) v sc, w1)"
    by (simp add: evaluate_turn_spec g v_def)
  obtain as1 sc1 w2 where
    rec: "for_agents (evaluate_turn env t lg) as (AList.update (name a) v sc, w1) = (as1, sc1, w2)"
    by (metis prod_cases3)
  have "for_agents (evaluate_turn env t lg) (a # as) (sc, w) = (a1 # as1, sc1, w2)"
    by (rule for_agents_Cons [OF turn rec])
  with Cons.prems have eqs: "ags' = a1 # as1" "sc' = sc1" "w' = w2" by simp_all
  note ih = Cons.IH [OF rec]
  let ?u = "AList.update (name a) v sc"
  have good_u: "\<exists>v'. map_of ?u n = Some v' \<and> 1 \<le> v' \<and> v' \<le> 10"
    if "map_of sc n = Some x \<and> 1 \<le> x \<and> x \<le> 10" for n x
    using that v by (simp add: update_conv')
  have here: "\<exists>v'. map_of ?u (name a) = Some v' \<and> 1 \<le> v' \<and> v' \<le> 10"
    using v by (simp add: update_conv')
  have keep: "\<exists>v'. map_of sc1 n = Some v' \<and> 1 \<le> v' \<and> v' \<le> 10"
    if "\<exists>x. map_of ?u n = Some x \<and> 1 \<le> x \<and> x \<le> 10" for n
    using that ih by blast
  have c1: "map name ags' = map name (a # as)" using ih n1 by (simp add: eqs)
  have c2: "\<forall>n x. map_of sc n = Some x \<and> 1 \<le> x \<and> x \<le> 10
              \<longrightarrow> (\<exists>v'. map_of sc' n = Some v' \<and> 1 \<le> v' \<and> v' \<le> 10)"
    unfolding eqs using good_u keep by blast
  have c3: "\<forall>n \<in> set (map name (a # as)). \<exists>v. map_of sc' n = Some v \<and> 1 \<le> v \<and> v \<le> 10"
    unfolding eqs using here keep ih by auto
  have c4: "fst ` set sc' = fst ` set sc \<union> set (map name (a # as))"
    unfolding eqs using ih by (auto simp: dom_update)
  have c5: "map fst sc' = map fst sc" if sub: "set (map name (a # as)) \<subseteq> fst ` set sc"
  proof -
    from sub have "name a \<in> fst ` set sc" by simp
    then have k: "map fst ?u = map fst sc" by (simp add: update_keys)
    then have "fst ` set ?u = fst ` set sc" by (metis set_map)
    with sub have "set (map name as) \<subseteq> fst ` set ?u" by simp
    with ih have "map fst sc1 = map fst ?u" by blast
    with k show ?thesis by (simp add: eqs)
  qed
  have c6: "distinct (map fst sc')" if "distinct (map fst sc)"
    unfolding eqs using that ih by (simp add: distinct_update)
  from c1 c2 c3 c4 c5 c6 show ?case by blast
qed

lemma store_scores_simps:
  "store_scores mx sc [] = sc"
  "store_scores mx sc ((n, resp) # named) =
     store_scores mx (AList.update n (spec_score mx resp) sc) named"
  by (simp_all add: store_scores_def)

lemma length_rating_responses: "length (rating_responses env t lg ags w) = length ags"
  by (induction ags arbitrary: w) (auto split: prod.splits)

text \<open>The table and the requests that the loop of \<open>evaluate_satisfaction\<close> leaves.\<close>

lemma for_agents_evaluate_table:
  assumes "for_agents (evaluate_turn env t lg) ags (sc, w) = (ags', sc', w')"
  shows "sc' = store_scores (int_max_str_digits env) sc
                 (zip (map name ags) (rating_responses env t lg ags w))
       \<and> sent w' = sent w @
            map (\<lambda>a. (model a,
                       [\<lparr>role = ''system'', content = system_prompt a\<rparr>,
                        \<lparr>role = ''user'', content = satisfaction_prompt t a lg\<rparr>])) ags"
  using assms
proof (induction ags arbitrary: sc w ags' sc' w')
  case Nil
  then show ?case by (simp add: store_scores_simps)
next
  case (Cons a as)
  obtain resp a1 w1 where
    g: "generate_response env (satisfaction_prompt t a lg) None a w = (resp, a1, w1)"
    by (metis prod_cases3)
  let ?u = "AList.update (name a) (spec_score (int_max_str_digits env) resp) sc"
  have turn: "evaluate_turn env t lg a (sc, w) = (a1, ?u, w1)"
    by (simp add: evaluate_turn_spec g)
  obtain as1 sc1 w2 where
    rec: "for_agents (evaluate_turn env t lg) as (?u, w1) = (as1, sc1, w2)"
    by (metis prod_cases3)
  have "for_agents (evaluate_turn env t lg) (a # as) (sc, w) = (a1 # as1, sc1, w2)"
    by (rule for_agents_Cons [OF turn rec])
  with Cons.prems have eqs: "ags' = a1 # as1" "sc' = sc1" "w' = w2" by simp_all
  note ih = Cons.IH [OF rec]
  have rr: "rating_responses env t lg (a # as) w = resp # rating_responses env t lg as w1"
    by (simp add: g)
  have s1: "sent w1 = sent w @ [(model a, respond_messages a (satisfaction_prompt t a lg) None)]"
    by (rule generate_response_result(7) [OF g])
  show ?case
    using ih s1 unfolding eqs rr
    by (simp add: store_scores_simps respond_messages_def)
qed

text \<open>In the stored table, a name that is not stored again later holds the score of the
  response beside it.\<close>

lemma store_scores_other:
  assumes "n \<notin> fst ` set named"
  shows "map_of (store_scores mx sc named) n = map_of sc n"
  using assms
proof (induction named arbitrary: sc)
  case Nil
  show ?case by (simp add: store_scores_simps)
next
  case (Cons p named)
  obtain m resp where p: "p = (m, resp)" by (metis prod.collapse)
  from Cons.prems have "n \<noteq> m" "n \<notin> fst ` set named" by (auto simp: p)
  with Cons.IH [of "AList.update m (spec_score mx resp) sc"] show ?case
    by (simp add: p store_scores_simps update_conv')
qed

lemma store_scores_last:
  assumes "length ns = length rs" and "i < length ns"
    and "ns ! i \<notin> set (drop (Suc i) ns)"
  shows "map_of (store_scores mx sc (zip ns rs)) (ns ! i) = Some (spec_score mx (rs ! i))"
  using assms
proof (induction ns arbitrary: rs i sc)
  case Nil
  then show ?case by simp
next
  case (Cons n ns)
  from Cons.prems(1) obtain r rs' where rs: "rs = r # rs'" by (cases rs) auto
  with Cons.prems(1) have len: "length ns = length rs'" by simp
  show ?case
  proof (cases i)
    case 0
    with Cons.prems(3) have "n \<notin> set ns" by simp
    then have "n \<notin> fst ` set (zip ns rs')"
      by (metis (no_types, lifting) imageE in_set_zipE prod.collapse)
    then have "map_of (store_scores mx (AList.update n (spec_score mx r) sc) (zip ns rs')) n =
                 map_of (AList.update n (spec_score mx r) sc) n"
      by (rule store_scores_other)
    then show ?thesis by (simp add: 0 rs store_scores_simps update_conv')
  next
    case (Suc j)
    with Cons.prems have j: "j < length ns" "ns ! j \<notin> set (drop (Suc j) ns)" by simp_all
    from Cons.IH [OF len j, of "AList.update n (spec_score mx r) sc"] show ?thesis
      by (simp add: Suc rs store_scores_simps)
  qed
qed

text \<open>
  Claim C5. After \<open>evaluate_satisfaction\<close> every agent of the roster has a score between
  1 and 10 in the table, and the table is what the call returns. The table left is the
  table before with, for each agent in roster order, the score of the agent's response
  to the rating request stored under the agent's name; so an agent whose name no later
  agent of the roster bears holds the score of its own response. The requests sent are
  the rating requests, one per agent. The score of a response is the one the
  specification describes, which is what the \<open>try\<close> block computes and its \<open>except\<close>
  branch defaults: the digits of the first token, clamped, and 5 on every failure;
  \<open>garbage\<close>, the empty response and the error marker of a failed gateway call all give 5.
\<close>

theorem evaluate_satisfaction_scores:
  assumes "evaluate_satisfaction env s w = (scores, s', w')"
  shows "(\<forall>a \<in> set (agents s').
            \<exists>v. map_of (satisfaction_scores s') (name a) = Some v \<and> 1 \<le> v \<and> v \<le> 10)
       \<and> scores = satisfaction_scores s'
       \<and> satisfaction_scores s' =
           store_scores (int_max_str_digits env) (satisfaction_scores s)
             (zip (map name (agents s))
                (rating_responses env (research_topic s) (discussion_log s) (agents s) w))
       \<and> length (rating_responses env (research_topic s) (discussion_log s) (agents s) w) =
           length (agents s)
       \<and> map name (agents s') = map name (agents s)
       \<and> (\<forall>i < length (agents s).
             name (agents s ! i) \<notin> set (drop (Suc i) (map name (agents s))) \<longrightarrow>
             map_of (satisfaction_scores s') (name (agents s ! i)) =
               Some (spec_score (int_max_str_digits env)
                       (rating_responses env (research_topic s) (discussion_log s)
                          (agents s) w ! i)))
       \<and> sent w' = sent w @
            map (\<lambda>a. (model a,
                       [\<lparr>role = ''system'', content = system_prompt a\<rparr>,
                        \<lparr>role = ''user'',
                         content = satisfaction_prompt (research_topic s) a (discussion_log s)\<rparr>]))
              (agents s)
       \<and> (\<forall>t lg a sc w0.
            evaluate_turn env t lg a (sc, w0) =
              (let (resp, a', w1) = generate_response env (satisfaction_prompt t a lg) None a w0
               in (a', AList.update (name a) (spec_score (int_max_str_digits env) resp) sc, w1)))
       \<and> (\<forall>resp. (case extract_score env resp of Inr v \<Rightarrow> v | Inl e \<Rightarrow> 5) =
                   spec_score (int_max_str_digits env) resp)
       \<and> (\<forall>resp. 1 \<le> spec_score (int_max_str_digits env) resp
                 \<and> spec_score (int_max_str_digits env) resp \<le> 10)
       \<and> spec_score (int_max_str_digits env) ''garbage'' = 5
       \<and> spec_score (int_max_str_digits env) [] = 5
       \<and> spec_score (int_max_str_digits env) (''Error generating response: '' @ e) = 5"
proof -
  let ?rs = "rating_responses env (research_topic s) (discussion_log s) (agents s) w"
  let ?mx = "int_max_str_digits env"
  obtain ags1 sc1 w1 where
    f: "for_agents (evaluate_turn env (research_topic s) (discussion_log s)) (agents s)
          (satisfaction_scores s, w) = (ags1, sc1, w1)"
    by (metis prod_cases3)
  from assms have eqs: "agents s' = ags1" "satisfaction_scores s' = sc1" "scores = sc1"
      "w' = w1"
    by (auto simp: evaluate_satisfaction_def f Let_def)
  from for_agents_evaluate [OF f] have names: "map name ags1 = map name (agents s)"
    and good: "\<forall>n \<in> set (map name (agents s)). \<exists>v. map_of sc1 n = Some v \<and> 1 \<le> v \<and> v \<le> 10"
    by blast+
  from names good have rng: "\<forall>a \<in> set (agents s').
            \<exists>v. map_of (satisfaction_scores s') (name a) = Some v \<and> 1 \<le> v \<and> v \<le> 10"
    unfolding eqs by (metis image_eqI set_map)
  from for_agents_evaluate_table [OF f] have
    tab: "sc1 = store_scores ?mx (satisfaction_scores s) (zip (map name (agents s)) ?rs)"
    and snt: "sent w1 = sent w @
            map (\<lambda>a. (model a,
                       [\<lparr>role = ''system'', content = system_prompt a\<rparr>,
                        \<lparr>role = ''user'',
                         content = satisfaction_prompt (research_topic s) a (discussion_log s)\<rparr>]))
              (agents s)"
    by blast+
  have len: "length ?rs = length (agents s)" by (rule length_rating_responses)
  have each: "map_of (satisfaction_scores s') (name (agents s ! i)) =
               Some (spec_score ?mx (?rs ! i))"
    if i: "i < length (agents s)"
      and last: "name (agents s ! i) \<notin> set (drop (Suc i) (map name (agents s)))" for i
  proof -
    have l: "length (map name (agents s)) = length ?rs" by (simp add: len)
    have i': "i < length (map name (agents s))" using i by simp
    have n: "map name (agents s) ! i = name (agents s ! i)" using i by simp
    have last': "map name (agents s) ! i \<notin> set (drop (Suc i) (map name (agents s)))"
      unfolding n by (rule last)
    from store_scores_last [OF l i' last', of ?mx "satisfaction_scores s"] show ?thesis
      by (simp only: n eqs tab)
  qed
  have g: "spec_score mx ''garbage'' = 5" "spec_score mx [] = 5"
       "spec_score mx (''Error generating response: '' @ e) = 5" for mx
    by (simp_all add: spec_score_def isspace_def isdigit_def isdecimal_def Let_def)
  have c1: "scores = satisfaction_scores s'" by (simp add: eqs)
  have c2: "satisfaction_scores s' =
      store_scores ?mx (satisfaction_scores s) (zip (map name (agents s)) ?rs)"
    by (simp only: eqs tab [symmetric])
  have c3: "map name (agents s') = map name (agents s)" by (simp only: eqs names)
  have c4: "sent w' = sent w @
            map (\<lambda>a. (model a,
                       [\<lparr>role = ''system'', content = system_prompt a\<rparr>,
                        \<lparr>role = ''user'',
                         content = satisfaction_prompt (research_topic s) a (discussion_log s)\<rparr>]))
              (agents s)"
    by (simp only: eqs snt)
  have c5: "\<forall>i < length (agents s).
             name (agents s ! i) \<notin> set (drop (Suc i) (map name (agents s))) \<longrightarrow>
             map_of (satisfaction_scores s') (name (agents s ! i)) =
               Some (spec_score ?mx (?rs ! i))"
    using each by blast
  have c6: "\<forall>t lg a sc w0.
            evaluate_turn env t lg a (sc, w0) =
              (let (resp, a', w1) = generate_response env (satisfaction_prompt t a lg) None a w0
               in (a', AList.update (name a) (spec_score ?mx resp) sc, w1))"
    using evaluate_turn_spec [of env] by blast
  have c7: "\<forall>resp. (case extract_score env resp of Inr v \<Rightarrow> v | Inl e \<Rightarrow> 5) =
                   spec_score ?mx resp"
    using extract_score_spec [of env] by blast
  have c8: "\<forall>resp. 1 \<le> spec_score ?mx resp \<and> spec_score ?mx resp \<le> 10"
    using spec_score_range by blast
  show ?thesis
    by (intro conjI rng c1 c2 len c3 c5 c4 c6 c7 c8 g)
qed

theorem evaluate_satisfaction_scores_witness:
  "fst (evaluate_satisfaction scripted_env roster_AB
          (scripted_world [Inr ''garbage'', Inr '' 12/10 ok''])) = [(''A'', 5), (''B'', 10)]
   \<and> rating_responses scripted_env (research_topic roster_AB) (discussion_log roster_AB)
        (agents roster_AB) (scripted_world [Inr ''garbage'', Inr '' 12/10 ok'']) =
       [''garbage'', '' 12/10 ok'']
   \<and> map_of (satisfaction_scores (fst (snd (evaluate_satisfaction scripted_env roster_AB
          (scripted_world [Inr ''garbage'', Inr '' 12/10 ok''])))))  ''A'' = Some 5
   \<and> map_of (satisfaction_scores (fst (snd (evaluate_satisfaction scripted_env roster_AB
          (scripted_world [Inr ''garbage'', Inr '' 12/10 ok''])))))  ''B'' = Some 10"
proof -
  let ?w = "scripted_world [Inr ''garbage'', Inr '' 12/10 ok'']"
  let ?X = "evaluate_satisfaction scripted_env roster_AB ?w"
  have run: "?X = (fst ?X, fst (snd ?X), snd (snd ?X))" by simp
  have rs: "rating_responses scripted_env (research_topic roster_AB) (discussion_log roster_AB)
              (agents roster_AB) ?w = [''garbage'', '' 12/10 ok'']"
    by code_simp
  have st: "store_scores (int_max_str_digits scripted_env) (satisfaction_scores roster_AB)
              (zip (map name (agents roster_AB)) [''garbage'', '' 12/10 ok'']) =
            [(''A'', 5), (''B'', 10)]"
    by code_simp
  from evaluate_satisfaction_scores [OF run] have
    "fst ?X = satisfaction_scores (fst (snd ?X))"
    "satisfaction_scores (fst (snd ?X)) =
       store_scores (int_max_str_digits scripted_env) (satisfaction_scores roster_AB)
         (zip (map name (agents roster_AB))
            (rating_responses scripted_env (research_topic roster_AB) (discussion_log roster_AB)
               (agents roster_AB) ?w))"
    by blast+
  then show ?thesis by (simp add: rs st)
qed

subsection \<open>The table and the roster\<close>

lemma for_agents_names:
  assumes "\<And>a st. name (fst (body a st)) = name a"
  shows "map name (fst (for_agents body ags st)) = map name ags"
proof (induction ags arbitrary: st)
  case Nil
  show ?case by simp
next
  case (Cons a as)
  obtain a1 st1 where b: "body a st = (a1, st1)" by (metis prod.collapse)
  obtain as1 st2 where r: "for_agents body as st1 = (as1, st2)" by (metis prod.collapse)
  from assms [of a st] b have n: "name a1 = name a" by simp
  from Cons.IH [of st1] r have "map name as1 = map name as" by simp
  moreover have "for_agents body (a # as) st = (a1 # as1, st2)"
    by (rule for_agents_Cons [OF b r])
  ultimately show ?case using n by simp
qed

lemma improve_system_prompt_name:
  "name (fst (snd (improve_system_prompt env fb a w))) = name a"
  by (simp add: improve_system_prompt_unfold split: prod.splits sum.splits)

lemma improve_system_prompt_result:
  "improve_system_prompt env fb a w = (r, a', w') \<Longrightarrow> name a' = name a"
  using improve_system_prompt_name [of env fb a w] by simp

lemma generate_response_name:
  "name (fst (snd (generate_response env p ctx a w))) = name a"
  by (simp add: generate_response_unfold split: prod.splits sum.splits)

lemma add_research_note_name: "name (fst (add_research_note env text a w)) = name a"
  by (simp add: add_research_note_def datetime_now_isoformat_def split: prod.splits)

lemma add_research_note_result:
  "add_research_note env nt a w = (a', w') \<Longrightarrow> name a' = name a"
  using add_research_note_name [of env nt a w] by simp

lemma respond_at_names:
  "map name (fst (snd (respond_at env i p ags w))) = map name ags"
proof -
  obtain resp a w1 where g: "generate_response env p None (ags ! i) w = (resp, a, w1)"
    by (metis prod_cases3)
  have n: "name a = name (ags ! i)" by (rule generate_response_result(1) [OF g])
  have "map name (ags[i := a]) = (map name ags)[i := name (ags ! i)]"
    by (simp add: map_update n)
  also have "\<dots> = map name ags"
    by (cases "i < length ags") (simp_all add: list_update_same_conv list_update_beyond)
  finally show ?thesis by (simp add: respond_at_def g)
qed

lemma respond_at_length: "length (fst (snd (respond_at env i p ags w))) = length ags"
  using respond_at_names [of env i p ags w] by (metis length_map)

lemma add_agent_session:
  "agents (snd (add_agent nm sp mdl s)) = agents s @ [ResearchAgent nm sp mdl]"
  "satisfaction_scores (snd (add_agent nm sp mdl s)) = AList.update nm 5 (satisfaction_scores s)"
  by (simp_all add: add_agent_def Let_def)

lemma trigger_self_improvement_session:
  "map name (agents (fst (snd (trigger_self_improvement env s w)))) = map name (agents s)"
  "satisfaction_scores (fst (snd (trigger_self_improvement env s w))) = satisfaction_scores s"
proof -
  let ?body = "improvement_turn env (research_topic s) (discussion_log s)"
  have b: "name (fst (?body a st)) = name a" for a st
    by (auto simp: improvement_turn_def split: prod.splits
          dest: improve_system_prompt_result)
  have "map name (fst (for_agents ?body (agents s) ([], w))) = map name (agents s)"
    by (rule for_agents_names) (rule b)
  then show "map name (agents (fst (snd (trigger_self_improvement env s w)))) = map name (agents s)"
    by (auto simp: trigger_self_improvement_def split: prod.splits)
  show "satisfaction_scores (fst (snd (trigger_self_improvement env s w))) = satisfaction_scores s"
    by (simp add: trigger_self_improvement_def split: prod.splits)
qed


lemma brainstorm_session:
  "map name (agents (fst (snd (conduct_brainstorm_session env rounds s w)))) = map name (agents s)"
  "satisfaction_scores (fst (snd (conduct_brainstorm_session env rounds s w))) =
     satisfaction_scores s"
proof -
  obtain ags1 res1 lg1 w1 where
    f: "foldl (brainstorm_round env (research_topic s) rounds)
          (agents s, [], discussion_log s, w) [0..<nat rounds] = (ags1, res1, lg1, w1)"
    by (metis prod_cases4)
  from brainstorm_rounds_log [OF f] have "map name ags1 = map name (agents s)" by blast
  then show "map name (agents (fst (snd (conduct_brainstorm_session env rounds s w)))) =
      map name (agents s)"
    by (simp add: conduct_brainstorm_session_def py_range_def f)
  show "satisfaction_scores (fst (snd (conduct_brainstorm_session env rounds s w))) =
     satisfaction_scores s"
    by (simp add: conduct_brainstorm_session_def py_range_def f)
qed

lemma research_queries_session:
  assumes "research_queries env qs acc s w = (exc, acc', s', w')"
  shows "map name (agents s') = map name (agents s)
         \<and> satisfaction_scores s' = satisfaction_scores s"
  using assms
proof (induction qs arbitrary: acc s w)
  case Nil
  then show ?case by simp
next
  case (Cons q qs)
  show ?case
  proof (cases "agents s")
    case Nil
    with Cons.prems show ?thesis by simp
  next
    case (Cons a rest)
    obtain results hist w1 where
      sa: "search_arxiv env q 3 (search_tool s) w = (results, hist, w1)"
      by (metis prod_cases3)
    obtain analysis a1 w2 where
      g: "generate_response env
            (analysis_prompt env q results (research_topic (s\<lparr>search_tool := hist\<rparr>)))
            None a w1 = (analysis, a1, w2)"
      by (metis prod_cases3)
    obtain a2 w3 where
      n: "add_research_note env (''Search: '' @ q @ ''\<newline>Findings: '' @ analysis) a1 w2 =
            (a2, w3)"
      by (metis prod.collapse)
    have n1: "name a1 = name a" by (rule generate_response_result(1) [OF g])
    have n2: "name a2 = name a1"
      by (rule add_research_note_result [OF n])
    let ?s1 = "s\<lparr>search_tool := hist, agents := a2 # rest,
                  discussion_log := discussion_log s @
                      [\<lparr>log_round = None, log_agent = name a2, log_type = ''research'',
                        log_topic = None, log_content = None, log_query = Some q,
                        log_analysis = Some analysis\<rparr>]\<rparr>"
    from Cons.prems have rest:
      "research_queries env qs (AList.update q results acc) ?s1 w3 = (exc, acc', s', w')"
      using \<open>agents s = a # rest\<close> sa g n by (simp add: Let_def)
    from Cons.IH [OF rest] show ?thesis
      using \<open>agents s = a # rest\<close> n1 n2 by simp
  qed
qed

lemma research_phase_session:
  "map name (agents (fst (snd (conduct_research_phase env qs s w)))) = map name (agents s)"
  "satisfaction_scores (fst (snd (conduct_research_phase env qs s w))) = satisfaction_scores s"
proof -
  obtain exc acc' s' w' where r: "research_queries env qs [] s w = (exc, acc', s', w')"
    by (metis prod_cases4)
  from research_queries_session [OF r]
  show "map name (agents (fst (snd (conduct_research_phase env qs s w)))) = map name (agents s)"
    and "satisfaction_scores (fst (snd (conduct_research_phase env qs s w))) =
      satisfaction_scores s"
    by (simp_all add: conduct_research_phase_def r)
qed

lemma discussion_agents_names:
  assumes "discussion_agents env t rt R r ags st = (exc, ags', st')"
  shows "map name ags' = map name ags"
  using assms
proof (induction ags arbitrary: st exc ags' st')
  case Nil
  then show ?case by simp
next
  case (Cons a as)
  obtain discussion ctx lg w where st: "st = (discussion, ctx, lg, w)"
    by (metis prod_cases4)
  show ?case
  proof (cases "discussion_prompt t rt R r ctx a")
    case (Inl e)
    with Cons.prems show ?thesis by (simp add: st)
  next
    case (Inr p)
    obtain resp a1 w1 where g: "generate_response env p (Some ctx) a w = (resp, a1, w1)"
      by (metis prod_cases3)
    have n1: "name a1 = name a" by (rule generate_response_result(1) [OF g])
    obtain exc1 as1 st1 where
      rec: "discussion_agents env t rt R r as
              (discussion @ [''['' @ name a1 @ '']: '' @ resp],
               ctx @ [\<lparr>role = ''assistant'', content = ''['' @ name a1 @ '']: '' @ resp\<rparr>],
               lg @ [\<lparr>log_round = Some (r + 1), log_agent = name a1,
                       log_type = ''discussion'', log_topic = Some t,
                       log_content = Some resp, log_query = None,
                       log_analysis = None\<rparr>], w1) = (exc1, as1, st1)"
      by (metis prod_cases3)
    from Cons.IH [OF rec] have ih: "map name as1 = map name as" .
    have "discussion_agents env t rt R r (a # as) st = (exc1, a1 # as1, st1)"
      using rec by (simp add: st Inr g Let_def)
    with Cons.prems have "ags' = a1 # as1" by simp
    with ih n1 show ?thesis by simp
  qed
qed

lemma discussion_rounds_names:
  assumes "discussion_rounds env t rt R rs ags st = (exc, ags', st')"
  shows "map name ags' = map name ags"
  using assms
proof (induction rs arbitrary: ags st)
  case Nil
  then show ?case by simp
next
  case (Cons r rs)
  obtain exc1 ags1 st1 where
    d: "discussion_agents env t rt R r ags st = (exc1, ags1, st1)"
    by (metis prod_cases3)
  note n = discussion_agents_names [OF d]
  show ?case
  proof (cases exc1)
    case None
    with Cons.prems d have "discussion_rounds env t rt R rs ags1 st1 = (exc, ags', st')"
      by simp
    from Cons.IH [OF this] n show ?thesis by simp
  next
    case (Some e)
    with Cons.prems d have "ags' = ags1" by simp
    with n show ?thesis by simp
  qed
qed

lemma structured_discussion_session:
  "map name (agents (fst (snd (structured_discussion env t rounds s w)))) = map name (agents s)"
  "satisfaction_scores (fst (snd (structured_discussion env t rounds s w))) =
     satisfaction_scores s"
proof -
  obtain exc ags1 discussion ctx lg w1 where
    d: "discussion_rounds env t (research_topic s) rounds (py_range rounds) (agents s)
          ([], [], discussion_log s, w) = (exc, ags1, discussion, ctx, lg, w1)"
    by (metis prod_cases4 prod_cases3)
  from discussion_rounds_names [OF d]
  show "map name (agents (fst (snd (structured_discussion env t rounds s w)))) =
      map name (agents s)"
    and "satisfaction_scores (fst (snd (structured_discussion env t rounds s w))) =
      satisfaction_scores s"
    by (simp_all add: structured_discussion_def d)
qed

lemma evaluate_satisfaction_session:
  "map name (agents (fst (snd (evaluate_satisfaction env s w)))) = map name (agents s)"
  "fst ` set (satisfaction_scores (fst (snd (evaluate_satisfaction env s w)))) =
     fst ` set (satisfaction_scores s) \<union> set (map name (agents s))"
  "set (map name (agents s)) \<subseteq> fst ` set (satisfaction_scores s) \<Longrightarrow>
     map fst (satisfaction_scores (fst (snd (evaluate_satisfaction env s w)))) =
       map fst (satisfaction_scores s)"
  "distinct (map fst (satisfaction_scores s)) \<Longrightarrow>
     distinct (map fst (satisfaction_scores (fst (snd (evaluate_satisfaction env s w)))))"
proof -
  obtain ags1 sc1 w1 where
    f: "for_agents (evaluate_turn env (research_topic s) (discussion_log s)) (agents s)
          (satisfaction_scores s, w) = (ags1, sc1, w1)"
    by (metis prod_cases3)
  have eqs: "agents (fst (snd (evaluate_satisfaction env s w))) = ags1"
      "satisfaction_scores (fst (snd (evaluate_satisfaction env s w))) = sc1"
    by (simp_all add: evaluate_satisfaction_def f Let_def)
  note fe = for_agents_evaluate [OF f]
  show "map name (agents (fst (snd (evaluate_satisfaction env s w)))) = map name (agents s)"
    unfolding eqs using fe by blast
  show "fst ` set (satisfaction_scores (fst (snd (evaluate_satisfaction env s w)))) =
     fst ` set (satisfaction_scores s) \<union> set (map name (agents s))"
    unfolding eqs using fe by blast
  show "map fst (satisfaction_scores (fst (snd (evaluate_satisfaction env s w)))) =
       map fst (satisfaction_scores s)"
    if "set (map name (agents s)) \<subseteq> fst ` set (satisfaction_scores s)"
    unfolding eqs using fe that by blast
  show "distinct (map fst (satisfaction_scores (fst (snd (evaluate_satisfaction env s w)))))"
    if "distinct (map fst (satisfaction_scores s))"
    unfolding eqs using fe that by blast
qed

lemma method_turn_name: "name (fst (method_turn env t a st)) = name a"
  by (auto simp: method_turn_def split: prod.splits dest: generate_response_result(1))

lemma respond_at_result:
  "respond_at env i p ags w = (r, ags', w') \<Longrightarrow> map name ags' = map name ags"
  using respond_at_names [of env i p ags w] by simp

lemma for_agents_method_result:
  "for_agents (method_turn env t) ags st = (ags', st') \<Longrightarrow> map name ags' = map name ags"
  using for_agents_names [of "method_turn env t" ags st, OF method_turn_name] by simp

lemma generate_paper_sections_session:
  "map name (agents (fst (snd (generate_paper_sections env s w)))) = map name (agents s)"
  "satisfaction_scores (fst (snd (generate_paper_sections env s w))) = satisfaction_scores s"
proof -
  show "map name (agents (fst (snd (generate_paper_sections env s w)))) = map name (agents s)"
    unfolding generate_paper_sections_def Let_def
    by (auto split: prod.splits dest!: respond_at_result for_agents_method_result)
  show "satisfaction_scores (fst (snd (generate_paper_sections env s w))) = satisfaction_scores s"
    unfolding generate_paper_sections_def Let_def
    by (auto split: prod.splits)
qed

lemma compile_final_paper_session:
  "fst (snd (compile_final_paper env s w)) = fst (snd (generate_paper_sections env s w))"
  by (simp add: compile_final_paper_def split: prod.splits)

lemma on_agent_session:
  assumes "\<And>a w. name (fst (f a w)) = name a"
  shows "map name (agents (fst (on_agent i f (s, w)))) = map name (agents s)"
    and "satisfaction_scores (fst (on_agent i f (s, w))) = satisfaction_scores s"
proof -
  show "satisfaction_scores (fst (on_agent i f (s, w))) = satisfaction_scores s"
    by (simp add: on_agent_def split: prod.splits)
  show "map name (agents (fst (on_agent i f (s, w)))) = map name (agents s)"
  proof (cases "i < length (agents s)")
    case False
    then show ?thesis by (simp add: on_agent_def)
  next
    case True
    obtain a1 w1 where fa: "f (agents s ! i) w = (a1, w1)" by (metis prod.collapse)
    from assms [of "agents s ! i" w] fa have n: "name a1 = name (agents s ! i)" by simp
    have "map name ((agents s)[i := a1]) = (map name (agents s))[i := name (agents s ! i)]"
      by (simp add: map_update n)
    also have "\<dots> = map name (agents s)"
      using True by (simp add: list_update_same_conv)
    finally show ?thesis using True by (simp add: on_agent_def fa)
  qed
qed

text \<open>Every command but the two that register agents leaves the names of the roster
  as they are; with every roster name a key of the table, it leaves the keys as they are.\<close>

lemma run_keeps_roster:
  assumes "\<not> registers c"
  shows "map name (agents (fst (run env c (s, w)))) = map name (agents s)"
proof (cases c)
  case (Agent_generate_response i p ctx)
  then show ?thesis
    by (simp add: on_agent_session(1) [of "\<lambda>a w. snd (generate_response env p ctx a w)"]
          generate_response_name)
next
  case (Agent_improve_system_prompt i fb)
  then show ?thesis
    by (simp add: on_agent_session(1) [of "\<lambda>a w. snd (improve_system_prompt env fb a w)"]
          improve_system_prompt_name)
next
  case (Agent_add_research_note i nt)
  then show ?thesis
    by (simp add: on_agent_session(1) [of "add_research_note env nt"] add_research_note_name)
next
  case (Agent_set_system_prompt i nt)
  then show ?thesis
    by (simp add: on_agent_session(1) [of "\<lambda>a w. (a\<lparr>system_prompt := nt\<rparr>, w)"])
qed (use assms in \<open>simp_all add: registers_def brainstorm_session research_phase_session
      structured_discussion_session evaluate_satisfaction_session generate_paper_sections_session
      compile_final_paper_session trigger_self_improvement_session set_research_topic_def
      export_session_log_def split: prod.splits\<close>)

lemma run_keeps_keys:
  assumes "\<not> registers c"
    and "set (map name (agents s)) \<subseteq> fst ` set (satisfaction_scores s)"
  shows "map fst (satisfaction_scores (fst (run env c (s, w)))) = map fst (satisfaction_scores s)"
proof (cases c)
  case (Agent_generate_response i p ctx)
  then show ?thesis
    by (simp add: on_agent_session(2) [of "\<lambda>a w. snd (generate_response env p ctx a w)"]
          generate_response_name)
next
  case (Agent_improve_system_prompt i fb)
  then show ?thesis
    by (simp add: on_agent_session(2) [of "\<lambda>a w. snd (improve_system_prompt env fb a w)"]
          improve_system_prompt_name)
next
  case (Agent_add_research_note i nt)
  then show ?thesis
    by (simp add: on_agent_session(2) [of "add_research_note env nt"] add_research_note_name)
next
  case (Agent_set_system_prompt i nt)
  then show ?thesis
    by (simp add: on_agent_session(2) [of "\<lambda>a w. (a\<lparr>system_prompt := nt\<rparr>, w)"])
next
  case Evaluate_satisfaction
  then show ?thesis using assms(2) by (simp add: evaluate_satisfaction_session(3))
qed (use assms in \<open>simp_all add: registers_def brainstorm_session research_phase_session
      structured_discussion_session generate_paper_sections_session
      compile_final_paper_session trigger_self_improvement_session set_research_topic_def
      export_session_log_def split: prod.splits\<close>)

lemma add_agent_invariant:
  assumes "fst ` set (satisfaction_scores s) = name ` set (agents s)"
    and "distinct (map fst (satisfaction_scores s))"
  shows "fst ` set (satisfaction_scores (snd (add_agent nm sp mdl s))) =
           name ` set (agents (snd (add_agent nm sp mdl s)))"
    and "distinct (map fst (satisfaction_scores (snd (add_agent nm sp mdl s))))"
  using assms
  by (auto simp: add_agent_session dom_update distinct_update ResearchAgent_def)

lemma initialize_default_team_invariant:
  assumes "fst ` set (satisfaction_scores s) = name ` set (agents s)"
    and "distinct (map fst (satisfaction_scores s))"
  shows "fst ` set (satisfaction_scores (initialize_default_team s)) =
           name ` set (agents (initialize_default_team s))"
    and "distinct (map fst (satisfaction_scores (initialize_default_team s)))"
  unfolding initialize_default_team_def Let_def
  by (intro add_agent_invariant assms)+

text \<open>The invariant of the sessions: the keys of the table are the names of the roster,
  and no key occurs twice.\<close>

lemma reachable_invariant:
  assumes "reachable env sw"
  shows "fst ` set (satisfaction_scores (fst sw)) = name ` set (agents (fst sw))
         \<and> distinct (map fst (satisfaction_scores (fst sw)))"
  using assms
proof (induction rule: reachable.induct)
  case (fresh w)
  show ?case by (simp add: ResearchOrchestrator_def)
next
  case (step sw c)
  obtain s w where sw: "sw = (s, w)" by (metis prod.collapse)
  from step.IH have inv: "fst ` set (satisfaction_scores s) = name ` set (agents s)"
      "distinct (map fst (satisfaction_scores s))"
    by (simp_all add: sw)
  show ?case
  proof (cases "registers c")
    case True
    then show ?thesis
      using add_agent_invariant [OF inv] initialize_default_team_invariant [OF inv]
      by (cases c) (simp_all add: registers_def sw)
  next
    case False
    from inv(1) have sub: "set (map name (agents s)) \<subseteq> fst ` set (satisfaction_scores s)"
      by simp
    have n: "map name (agents (fst (run env c (s, w)))) = map name (agents s)"
      by (rule run_keeps_roster [OF False])
    have k: "map fst (satisfaction_scores (fst (run env c (s, w)))) =
               map fst (satisfaction_scores s)"
      by (rule run_keeps_keys [OF False sub])
    from n have "name ` set (agents (fst (run env c (s, w)))) = name ` set (agents s)"
      by (metis set_map)
    moreover from k have "fst ` set (satisfaction_scores (fst (run env c (s, w)))) =
        fst ` set (satisfaction_scores s)"
      by (metis set_map)
    ultimately show ?thesis using inv k by (simp add: sw)
  qed
qed

text \<open>
  Claim C9. In every session a driver can reach, the keys of the satisfaction table are
  exactly the names of the agents of the roster (and no key occurs twice). From such a
  session, \<open>add_agent\<close> appends one agent to the roster and sets the entry of its name to
  5; \<open>evaluate_satisfaction\<close> leaves the keys as they are, in the same order; and every
  command other than the two that register agents leaves both the names of the roster
  and the keys of the table as they are.
\<close>

theorem satisfaction_keys_match_roster:
  assumes "reachable env (s, w)"
  shows "fst ` set (satisfaction_scores s) = name ` set (agents s)
       \<and> distinct (map fst (satisfaction_scores s))
       \<and> (\<forall>nm sp mdl.
             map name (agents (fst (run env (Add_agent nm sp mdl) (s, w)))) =
               map name (agents s) @ [nm]
             \<and> map_of (satisfaction_scores (fst (run env (Add_agent nm sp mdl) (s, w)))) nm =
                 Some 5)
       \<and> map fst (satisfaction_scores (fst (run env Evaluate_satisfaction (s, w)))) =
           map fst (satisfaction_scores s)
       \<and> (\<forall>c. registers c
              \<or> (map name (agents (fst (run env c (s, w)))) = map name (agents s)
                  \<and> map fst (satisfaction_scores (fst (run env c (s, w)))) =
                      map fst (satisfaction_scores s)))"
proof -
  from reachable_invariant [OF assms] have inv:
    "fst ` set (satisfaction_scores s) = name ` set (agents s)"
    "distinct (map fst (satisfaction_scores s))"
    by simp_all
  from inv(1) have sub: "set (map name (agents s)) \<subseteq> fst ` set (satisfaction_scores s)"
    by simp
  have add: "map name (agents (fst (run env (Add_agent nm sp mdl) (s, w)))) =
               map name (agents s) @ [nm]
             \<and> map_of (satisfaction_scores (fst (run env (Add_agent nm sp mdl) (s, w)))) nm =
                 Some 5" for nm sp mdl
    by (simp add: add_agent_session update_conv' ResearchAgent_def)
  have ev: "map fst (satisfaction_scores (fst (run env Evaluate_satisfaction (s, w)))) =
           map fst (satisfaction_scores s)"
    by (rule run_keeps_keys [OF _ sub]) (simp add: registers_def)
  have other: "registers c
              \<or> (map name (agents (fst (run env c (s, w)))) = map name (agents s)
                  \<and> map fst (satisfaction_scores (fst (run env c (s, w)))) =
                      map fst (satisfaction_scores s))" for c
    using run_keeps_roster [of c env s w] run_keeps_keys [of c s env w] sub by blast
  from inv add ev other show ?thesis by blast
qed

theorem satisfaction_keys_match_roster_witness:
  "satisfaction_scores
     (fst (run scripted_env Evaluate_satisfaction
        (run scripted_env (Add_agent ''B'' ''Ethics'' ''llama3.1'')
           (run scripted_env (Add_agent ''A'' ''Vision'' ''llama3.1'')
              (ResearchOrchestrator, scripted_world [Inr ''7'', Inr ''garbage'']))))) =
     [(''A'', 7), (''B'', 5)]
   \<and> fst ` set (satisfaction_scores
     (fst (run scripted_env Evaluate_satisfaction
        (run scripted_env (Add_agent ''B'' ''Ethics'' ''llama3.1'')
           (run scripted_env (Add_agent ''A'' ''Vision'' ''llama3.1'')
              (ResearchOrchestrator, scripted_world [Inr ''7'', Inr ''garbage''])))))) =
     name ` set (agents
     (fst (run scripted_env Evaluate_satisfaction
        (run scripted_env (Add_agent ''B'' ''Ethics'' ''llama3.1'')
           (run scripted_env (Add_agent ''A'' ''Vision'' ''llama3.1'')
              (ResearchOrchestrator, scripted_world [Inr ''7'', Inr ''garbage'']))))))"
proof -
  let ?X = "run scripted_env Evaluate_satisfaction
        (run scripted_env (Add_agent ''B'' ''Ethics'' ''llama3.1'')
           (run scripted_env (Add_agent ''A'' ''Vision'' ''llama3.1'')
              (ResearchOrchestrator, scripted_world [Inr ''7'', Inr ''garbage''])))"
  have "reachable scripted_env ?X"
    by (intro reachable.step reachable.fresh)
  then have r: "reachable scripted_env (fst ?X, snd ?X)" by simp
  have v: "satisfaction_scores (fst ?X) = [(''A'', 7), (''B'', 5)]" by code_simp
  from satisfaction_keys_match_roster [OF r] v show ?thesis by blast
qed

end
